theory Spec2Isabelle
  imports Complex_Main
begin

section \<open>The tooltip plugin of yagr: data model\<close>

text \<open>
  The development embeds the tooltip plugin (\<^verbatim>\<open>YagrTooltipPlugin\<close>, the second file
  of \<^verbatim>\<open>src/unnamed/part_000\<close>): its state, the functions \<^verbatim>\<open>show\<close>, \<^verbatim>\<open>hide\<close>
  and \<^verbatim>\<open>pin\<close>, the pointer handlers, the value resolver \<^verbatim>\<open>findValue\<close> and the hooks
  \<^verbatim>\<open>init\<close>, \<^verbatim>\<open>setData\<close>, \<^verbatim>\<open>setCursor\<close> and \<^verbatim>\<open>destroy\<close>. A handler takes the
  state and returns the state it leaves, together with the exception it throws, if any.
  What the plugin hands to its collaborators is recorded and not computed: a call of the
  render function and of \<^verbatim>\<open>placement\<close> is an entry of the render log, a call of the
  notification callback is an entry of the list of emitted action tags. The HTML of the
  default renderer, \<^verbatim>\<open>checkFocus\<close> (which only calls \<^verbatim>\<open>yagr.focus\<close>) and
  \<^verbatim>\<open>setSize\<close> (whose offsets \<^verbatim>\<open>setCursor\<close> reads afresh) write nothing that the
  handlers below read.

  JavaScript numbers are idealised as \<^typ>\<open>real\<close>: nothing below depends on rounding or
  on NaN. Names that are keywords or constants of HOL carry a prefix or suffix
  (\<^verbatim>\<open>show\<close> is \<open>show_fn\<close>, the row's \<^verbatim>\<open>value\<close> is \<open>row_value\<close>, the local
  \<^verbatim>\<open>top\<close> is \<open>top_px\<close>, and so on).
\<close>

subsection \<open>Values, options, state\<close>

text \<open>An element of a data series (\<^verbatim>\<open>DataSeries\<close>): a number, a string label or
  \<^verbatim>\<open>null\<close>; \<open>Undefined\<close> is what reading an array out of range gives.\<close>

datatype cell = Num real | Str string | Null | Undefined

text \<open>\<^verbatim>\<open>export type TooltipAction = 'init' | 'mount' | 'render' | 'show' | 'hide' | 'pin' | 'unpin' | 'destroy'\<close>\<close>

datatype TooltipAction = Init | Mount | Render | Show | Hide | Pin | Unpin | Destroy

text \<open>Modelled from the spec: the declaration of \<^verbatim>\<open>TrackingOptions\<close> is in
  \<^verbatim>\<open>./types\<close>, which is not part of the sources; the spec gives the tracking policy
  as "enumerated: Sticky | Area | none".\<close>

datatype TrackingOptions = Sticky | Area | TrackingNone

text \<open>Modelled from the spec: the declaration of \<^verbatim>\<open>SnapToValue\<close> is in
  \<^verbatim>\<open>../../types\<close>, which is not part of the sources; the spec gives the snap policy as
  "enumerated: Closest | None | explicit false". The members are taken to be truthy.\<close>

datatype SnapToValue = Closest | SnapNone

text \<open>\<^verbatim>\<open>cursor.snapToValues\<close>: absent, \<^verbatim>\<open>false\<close>, or a member of the enumeration.\<close>

datatype snapSetting = SnapUnset | SnapFalse | SnapTo SnapToValue

record CursorOptions =
  snapToValues :: snapSetting

text \<open>\<^verbatim>\<open>tOverlay.style.display\<close>\<close>

datatype display = DisplayNone | DisplayBlock

text \<open>A row of the tooltip (\<^verbatim>\<open>TooltipRow\<close>, built in \<^verbatim>\<open>setCursor\<close>). The field
  \<open>active\<close> is absent (falsy) until it is set, \<open>normalized\<close> is optional.\<close>

record TooltipRow =
  row_name :: string
  originalValue :: cell
  row_value :: string
  row_y :: cell
  row_color :: string
  active :: bool
  normalized :: "cell option"

text \<open>The fields of a uPlot series that the plugin reads. \<open>c_src\<close> is \<^verbatim>\<open>serie.$c\<close>,
  \<open>showInTooltip\<close> is \<^verbatim>\<open>undefined\<close> (\<open>None\<close>) or a boolean.\<close>

record Series =
  s_show :: bool
  showInTooltip :: "bool option"
  s_name :: string
  s_color :: string
  c_src :: "cell list option"
  formatter :: "(cell \<Rightarrow> string) option"
  precision :: "real option"
  normalizedData :: "cell list option"

text \<open>\<^verbatim>\<open>opts\<close>, the options after the defaults are merged in. \<open>defaultRender\<close> says
  whether \<^verbatim>\<open>opts.render === renderTooltip\<close>; \<open>onStateChange\<close> says whether a
  notification callback is configured; \<open>sort\<close> is the comparator
  \<^verbatim>\<open>opts.sort\<close>, if one is configured; \<open>opt_value\<close> is \<^verbatim>\<open>opts.value\<close>.\<close>

record TooltipOptions =
  tracking :: TrackingOptions
  maxLines :: nat
  highlightLines :: bool
  total :: bool
  defaultRender :: bool
  pinable :: bool
  opt_value :: "cell \<Rightarrow> real option \<Rightarrow> string"
  sort :: "(TooltipRow \<Rightarrow> TooltipRow \<Rightarrow> real) option"
  hideNoData :: bool
  onStateChange :: bool

text \<open>\<^verbatim>\<open>const anchor = {left: ..., top: ...}\<close>\<close>

record anchor =
  a_left :: real
  a_top :: real

text \<open>One call of \<^verbatim>\<open>opts.render(rows, {options, lines, x, pinned, sum})\<close> followed by
  \<^verbatim>\<open>placement(tOverlay, anchor, ...)\<close>.\<close>

record renderCall =
  rc_rows :: "TooltipRow list"
  rc_lines :: int
  rc_x :: cell
  rc_pinned :: bool
  rc_sum :: "string option"
  rc_anchor :: anchor

text \<open>The value of \<^verbatim>\<open>renderTooltipCloses\<close>: the initial \<^verbatim>\<open>() => {}\<close>, or the closure
  that \<^verbatim>\<open>setCursor\<close> assigns, with the variables it captures.\<close>

datatype closure = Noop
  | RenderClosure "TooltipRow list" int cell real anchor

text \<open>\<^verbatim>\<open>export interface TooltipState\<close>\<close>

record TooltipState =
  pinned :: bool
  clickStartedX :: "real option"
  visible :: bool
  mounted :: bool

text \<open>The state of a plugin instance: \<^verbatim>\<open>state\<close> together with the other variables of
  the constructor's scope and the parts of the DOM it writes.
  \<open>emitted\<close> is the sequence of action tags passed to \<^verbatim>\<open>opts.onStateChange\<close>,
  \<open>rendered\<close> the sequence of calls of \<^verbatim>\<open>opts.render\<close>,
  \<open>overSet\<close> whether \<^verbatim>\<open>over\<close> has been assigned by the \<^verbatim>\<open>init\<close> hook,
  \<open>overListeners\<close> whether the four listeners on \<^verbatim>\<open>over\<close> are attached,
  \<open>docListeners\<close> whether \<^verbatim>\<open>checkFocus\<close> and \<^verbatim>\<open>detectClickOutside\<close> are attached
  to the document, \<open>pinnedClass\<close> whether the overlay carries the class
  \<^verbatim>\<open>yagr-tooltip_pinned\<close>, \<open>pointsHolders\<close> the number of
  \<^verbatim>\<open>.yagr-points-holder\<close> elements inside \<^verbatim>\<open>over\<close>, \<open>overlayInDom\<close> whether
  \<^verbatim>\<open>tOverlay\<close> is attached to the document.\<close>

record plugin = TooltipState +
  overlay_display :: display
  emitted :: "TooltipAction list"
  renderTooltipCloses :: closure
  rendered :: "renderCall list"
  overSet :: bool
  overListeners :: bool
  docListeners :: bool
  pinnedClass :: bool
  pointsHolders :: nat
  overlayInDom :: bool

text \<open>What a handler can throw.\<close>

datatype error = TypeError | DataError string

subsection \<open>Notifications, show and hide\<close>

text \<open>\<^verbatim>\<open>const emit = (action) => { if (opts.onStateChange) { opts.onStateChange(...) } }\<close>.
  The callback is an observer: it records the action tag.\<close>

definition emit :: "TooltipOptions \<Rightarrow> TooltipAction \<Rightarrow> plugin \<Rightarrow> plugin" where
  "emit opts action s =
     (if onStateChange opts then s\<lparr>emitted := emitted s @ [action]\<rparr> else s)"

text \<open>The state after the constructor has run: the overlay is created hidden and appended
  to the body, \<^verbatim>\<open>init\<close> and \<^verbatim>\<open>mount\<close> are emitted.\<close>

definition created :: "TooltipOptions \<Rightarrow> plugin" where
  "created opts =
     emit opts Mount (emit opts Init
       \<lparr>pinned = False, clickStartedX = None, visible = False, mounted = True,
        overlay_display = DisplayNone, emitted = [], renderTooltipCloses = Noop,
        rendered = [], overSet = False, overListeners = False, docListeners = False,
        pinnedClass = False, pointsHolders = 0, overlayInDom = True\<rparr>)"

text \<open>\<^verbatim>\<open>function show()\<close>\<close>

definition show_fn :: "TooltipOptions \<Rightarrow> plugin \<Rightarrow> plugin" where
  "show_fn opts s =
     (let shouldEmit = \<not> visible s;
          s1 = s\<lparr>visible := True\<rparr>;
          s2 = s1\<lparr>overlay_display := DisplayBlock\<rparr>
      in if shouldEmit then emit opts Show s2 else s2)"

text \<open>\<^verbatim>\<open>function hide()\<close>: \<^verbatim>\<open>emit('hide')\<close> stands on the line of the display
  assignment, outside the guard; the guarded call is \<^verbatim>\<open>emit('show')\<close>.\<close>

definition hide :: "TooltipOptions \<Rightarrow> plugin \<Rightarrow> plugin" where
  "hide opts s =
     (let shouldEmit = visible s;
          s1 = s\<lparr>visible := False\<rparr>;
          s2 = s1\<lparr>overlay_display := DisplayNone\<rparr>;
          s3 = emit opts Hide s2
      in if shouldEmit then emit opts Show s3 else s3)"

subsection \<open>Pinning and the pointer handlers\<close>

text \<open>\<^verbatim>\<open>function pin(pinState)\<close>. The flag is written first. Both branches then read
  \<^verbatim>\<open>over\<close>, which is undefined until the \<^verbatim>\<open>init\<close> hook has run: the call throws
  there, after the writes that precede it. The height that is frozen on the list
  element is a style only and is left out.\<close>

definition pin :: "TooltipOptions \<Rightarrow> bool \<Rightarrow> plugin \<Rightarrow> error option \<times> plugin" where
  "pin opts pinState s =
     (let s1 = s\<lparr>pinned := pinState\<rparr> in
      if pinState then
        (let s2 = s1\<lparr>pinnedClass := True\<rparr> in
         if \<not> overSet s2 then (Some TypeError, s2)
         else
           (let s3 = s2\<lparr>pointsHolders := Suc (pointsHolders s2)\<rparr>;
                s4 = (if defaultRender opts then s3\<lparr>docListeners := True\<rparr> else s3)
            in (None, emit opts Pin s4)))
      else
        (if \<not> overSet s1 then (Some TypeError, s1)
         else
           (let s2 = s1\<lparr>pointsHolders := pointsHolders s1 - 1\<rparr>;
                s3 = s2\<lparr>pinnedClass := False\<rparr>;
                s4 = (if defaultRender opts then s3\<lparr>docListeners := False\<rparr> else s3)
            in (None, emit opts Unpin s4))))"

text \<open>Calling \<^verbatim>\<open>renderTooltipCloses()\<close>: the initial closure does nothing; the closure
  assigned by \<^verbatim>\<open>setCursor\<close> renders its rows (reading \<^verbatim>\<open>state.pinned\<close> at the time
  of the call), places the overlay and emits \<open>render\<close>.\<close>

definition callRenderTooltipCloses :: "TooltipOptions \<Rightarrow> plugin \<Rightarrow> plugin" where
  "callRenderTooltipCloses opts s =
     (case renderTooltipCloses s of
        Noop \<Rightarrow> s
      | RenderClosure rows availableLines x sm anch \<Rightarrow>
          emit opts Render
            (s\<lparr>rendered := rendered s @
               [\<lparr>rc_rows = rows, rc_lines = availableLines, rc_x = x, rc_pinned = pinned s,
                 rc_sum = (if total opts then Some (opt_value opts (Num sm) None) else None),
                 rc_anchor = anch\<rparr>]\<rparr>))"

text \<open>\<^verbatim>\<open>const onMouseDown = (event) => { state.clickStartedX = event.clientX; }\<close>\<close>

definition onMouseDown :: "real \<Rightarrow> plugin \<Rightarrow> plugin" where
  "onMouseDown clientX s = s\<lparr>clickStartedX := Some clientX\<rparr>"

text \<open>Truthiness of \<^verbatim>\<open>state.clickStartedX\<close> (\<^verbatim>\<open>null | number\<close>): \<^verbatim>\<open>null\<close> and
  \<open>0\<close> are falsy.\<close>

definition truthy :: "real option \<Rightarrow> bool" where
  "truthy v = (case v of None \<Rightarrow> False | Some n \<Rightarrow> n \<noteq> 0)"

text \<open>\<^verbatim>\<open>const onMouseUp = (event) => { if (opts.pinable && state.clickStartedX &&
  state.clickStartedX === event.clientX) { pin(!state.pinned); show(); renderTooltipCloses(); } }\<close>\<close>

definition onMouseUp :: "TooltipOptions \<Rightarrow> real \<Rightarrow> plugin \<Rightarrow> error option \<times> plugin" where
  "onMouseUp opts clientX s =
     (if pinable opts \<and> truthy (clickStartedX s) \<and> clickStartedX s = Some clientX then
        (case pin opts (\<not> pinned s) s of
           (Some e, s1) \<Rightarrow> (Some e, s1)
         | (None, s1) \<Rightarrow> (None, callRenderTooltipCloses opts (show_fn opts s1)))
      else (None, s))"

definition onMouseEnter :: "TooltipOptions \<Rightarrow> plugin \<Rightarrow> plugin" where
  "onMouseEnter opts s = show_fn opts s"

definition onMouseLeave :: "TooltipOptions \<Rightarrow> plugin \<Rightarrow> plugin" where
  "onMouseLeave opts s = (if \<not> pinned s then hide opts s else s)"

text \<open>\<^verbatim>\<open>detectClickOutside\<close>, for a target that is an element (\<open>isElement\<close>), inside the
  overlay (\<open>insideTooltip\<close>) or inside \<^verbatim>\<open>over\<close> (\<open>insideOver\<close>).\<close>

definition detectClickOutside ::
  "TooltipOptions \<Rightarrow> bool \<Rightarrow> bool \<Rightarrow> bool \<Rightarrow> plugin \<Rightarrow> error option \<times> plugin" where
  "detectClickOutside opts isElement insideTooltip insideOver s =
     (if isElement then
        (if \<not> overSet s then (Some TypeError, s)
         else if \<not> insideTooltip \<and> \<not> insideOver then
           (case pin opts False s of
              (Some e, s1) \<Rightarrow> (Some e, s1)
            | (None, s1) \<Rightarrow> (None, hide opts s1))
         else (None, s))
      else (None, s))"

subsection \<open>The hooks init, setData and destroy\<close>

definition init_hook :: "plugin \<Rightarrow> plugin" where
  "init_hook s = s\<lparr>overSet := True, overListeners := True\<rparr>"

text \<open>A JavaScript value, as far as \<^verbatim>\<open>setData\<close> inspects \<^verbatim>\<open>u.data\<close>. \<open>JObj\<close> is an
  object that is not an array and has no method \<^verbatim>\<open>every\<close>.\<close>

datatype jsval = JNull | JUndefined | JNum real | JStr string | JBool bool
  | JArr "jsval list" | JObj

text \<open>\<^verbatim>\<open>Array.isArray\<close>\<close>

fun isArray :: "jsval \<Rightarrow> bool" where
  "isArray (JArr xs) = True"
| "isArray v = False"

text \<open>\<^verbatim>\<open>setData: (u) => { if (!u.data.every(Array.isArray)) { throw new Error(...) } }\<close>.
  On a value that is not an array the call of \<^verbatim>\<open>every\<close> itself throws a TypeError.\<close>

definition setData :: "jsval \<Rightarrow> error option" where
  "setData data =
     (case data of
        JArr xs \<Rightarrow>
          (if \<not> list_all isArray xs
           then Some (DataError ''Tooltip plugin applied to unconvient datalines: expected number[][]'')
           else None)
      | _ \<Rightarrow> Some TypeError)"

text \<open>\<^verbatim>\<open>destroy\<close>: the listeners on \<^verbatim>\<open>over\<close> are removed, the overlay is removed,
  \<open>mounted\<close> is cleared and \<open>destroy\<close> is emitted.\<close>

definition destroy :: "TooltipOptions \<Rightarrow> plugin \<Rightarrow> error option \<times> plugin" where
  "destroy opts s =
     (if \<not> overSet s then (Some TypeError, s)
      else
        (let s1 = s\<lparr>overListeners := False\<rparr>;
             s2 = s1\<lparr>overlayInDom := False\<rparr>;
             s3 = s2\<lparr>mounted := False\<rparr>
         in (None, emit opts Destroy s3)))"

subsection \<open>The value resolver\<close>

text \<open>Reading \<^verbatim>\<open>xs[i]\<close>: \<^verbatim>\<open>undefined\<close> outside the array.\<close>

definition js_nth :: "'a list \<Rightarrow> 'a \<Rightarrow> int \<Rightarrow> 'a" where
  "js_nth xs undef i = (if 0 \<le> i \<and> i < int (length xs) then xs ! nat i else undef)"

text \<open>The functions imported from \<^verbatim>\<open>../../utils/common\<close>, which is not part of the
  sources: they are parameters of the model. \<open>findDataIdx\<close> returns an index,
  \<open>findInRange\<close> and \<open>findSticky\<close> return an index or \<^verbatim>\<open>null\<close>.\<close>

record utils =
  findDataIdx :: "cell list \<Rightarrow> Series \<Rightarrow> nat \<Rightarrow> SnapToValue option \<Rightarrow> cell \<Rightarrow> int"
  findInRange :: "cell list \<Rightarrow> real \<Rightarrow> bool \<Rightarrow> int option"
  findSticky :: "cell list \<Rightarrow> real \<Rightarrow> int option"

text \<open>A default parameter \<^verbatim>\<open>p = null\<close>: an argument that is \<^verbatim>\<open>undefined\<close> is
  replaced by \<^verbatim>\<open>null\<close>.\<close>

definition defaultNull :: "cell \<Rightarrow> cell" where
  "defaultNull v = (case v of Undefined \<Rightarrow> Null | w \<Rightarrow> w)"

text \<open>\<^verbatim>\<open>const findValue = (cursor, data, serie, idx, stripValue = null) => ...\<close>.
  The gap-marker that the body compares with and passes on is the parameter after its
  default has been applied. \<open>snapTo\<close> is \<^verbatim>\<open>false\<close> (\<open>None\<close>) or a member of the
  enumeration.\<close>

definition findValue ::
  "utils \<Rightarrow> CursorOptions \<Rightarrow> cell list \<Rightarrow> Series \<Rightarrow> nat \<Rightarrow> cell \<Rightarrow> cell" where
  "findValue ut cursor data serie idx stripValueArg =
     (let stripValue = defaultNull stripValueArg;
          source = (case c_src serie of Some c \<Rightarrow> c | None \<Rightarrow> data);
          snapTo = (case snapToValues cursor of
                      SnapFalse \<Rightarrow> None
                    | SnapTo v \<Rightarrow> Some v
                    | SnapUnset \<Rightarrow> Some Closest);
          value = js_nth source Undefined (int idx)
      in if value = stripValue
         then js_nth source Undefined (findDataIdx ut source serie idx snapTo stripValue)
         else value)"

subsection \<open>The cursor update\<close>

text \<open>What \<^verbatim>\<open>setCursor\<close> reads from its environment: \<^verbatim>\<open>u.cursor\<close>, \<^verbatim>\<open>u.data\<close>
  (\<open>None\<close> is \<^verbatim>\<open>null\<close>), \<^verbatim>\<open>u.series\<close>, \<^verbatim>\<open>yagr.isChartInViewPort()\<close>,
  \<open>cursorValue\<close> (\<^verbatim>\<open>Number(u.posToVal(top, 'y').toFixed(2))\<close>, computed by the engine),
  the bounding box of \<^verbatim>\<open>over\<close> and the two client widths.\<close>

record uplot =
  u_left :: real
  u_top :: "real option"
  u_idx :: "nat option"
  u_data :: "cell list list option"
  u_series :: "Series list"
  inViewPort :: bool
  cursorValue :: real
  bbox_left :: real
  bbox_top :: real
  bodyClientWidth :: real
  overlayClientWidth :: real

text \<open>\<^verbatim>\<open>yagr.config\<close>: the cursor options and \<^verbatim>\<open>settings.interpolationValue\<close>.\<close>

record yagrConfig =
  cfg_cursor :: CursorOptions
  interpolationValue :: cell

text \<open>\<^verbatim>\<open>const ANCHOR_Y_OFFSET = 24\<close>\<close>

definition ANCHOR_Y_OFFSET :: real where
  "ANCHOR_Y_OFFSET = 24"

text \<open>The local variables of the loop of \<^verbatim>\<open>setCursor\<close>.\<close>

record loopState =
  l_rows :: "TooltipRow list"
  l_ys :: "cell list"
  l_rowYs :: "cell list"
  l_sum :: real
  l_i :: nat

text \<open>The values the loop body computes for the series at index \<open>i\<close>: \<open>dValueAt\<close> is
  \<^verbatim>\<open>dValue\<close>, \<open>valueAt\<close> is \<^verbatim>\<open>value\<close> after a string has been replaced by
  \<^verbatim>\<open>null\<close>, \<open>realYAt\<close> is \<^verbatim>\<open>realY\<close>, \<open>yValueAt\<close> is \<^verbatim>\<open>yValue\<close>, \<open>skipRow\<close> is
  the condition of the \<^verbatim>\<open>continue\<close> that skips the row.\<close>

definition dValueAt :: "utils \<Rightarrow> yagrConfig \<Rightarrow> cell list list \<Rightarrow> Series list \<Rightarrow> nat \<Rightarrow> nat \<Rightarrow> cell" where
  "dValueAt ut cfg data series idx i =
     findValue ut (cfg_cursor cfg) (data ! i) (series ! i) idx (interpolationValue cfg)"

definition valueAt :: "utils \<Rightarrow> yagrConfig \<Rightarrow> cell list list \<Rightarrow> Series list \<Rightarrow> nat \<Rightarrow> nat \<Rightarrow> cell" where
  "valueAt ut cfg data series idx i =
     (case dValueAt ut cfg data series idx i of Str l \<Rightarrow> Null | v \<Rightarrow> v)"

definition realYAt :: "cell list list \<Rightarrow> nat \<Rightarrow> nat \<Rightarrow> cell" where
  "realYAt data idx i = js_nth (data ! i) Undefined (int idx)"

definition yValueAt :: "utils \<Rightarrow> yagrConfig \<Rightarrow> cell list list \<Rightarrow> Series list \<Rightarrow> nat \<Rightarrow> nat \<Rightarrow> cell" where
  "yValueAt ut cfg data series idx i =
     (if (case c_src (series ! i) of
            Some c \<Rightarrow> js_nth c Undefined (int idx) = interpolationValue cfg
          | None \<Rightarrow> False)
      then valueAt ut cfg data series idx i
      else realYAt data idx i)"

definition skipRow :: "utils \<Rightarrow> yagrConfig \<Rightarrow> TooltipOptions \<Rightarrow> cell list list \<Rightarrow> Series list \<Rightarrow> nat \<Rightarrow> nat \<Rightarrow> bool" where
  "skipRow ut cfg opts data series idx i =
     ((valueAt ut cfg data series idx i = Null \<and> hideNoData opts)
      \<or> showInTooltip (series ! i) = Some False)"

text \<open>\<^verbatim>\<open>const rowData: TooltipRow = {...}\<close>, with \<^verbatim>\<open>normalized\<close> when the series has
  normalized data.\<close>

definition rowData :: "utils \<Rightarrow> yagrConfig \<Rightarrow> TooltipOptions \<Rightarrow> cell list list \<Rightarrow> Series list \<Rightarrow> nat \<Rightarrow> nat \<Rightarrow> TooltipRow" where
  "rowData ut cfg opts data series idx i =
     (let serie = series ! i;
          dValue = dValueAt ut cfg data series idx i;
          displayValue = (case formatter serie of
                            Some f \<Rightarrow> f dValue
                          | None \<Rightarrow> opt_value opts dValue (precision serie))
      in \<lparr>row_name = s_name serie,
          originalValue = valueAt ut cfg data series idx i,
          row_value = displayValue,
          row_y = yValueAt ut cfg data series idx i,
          row_color = s_color serie,
          active = False,
          normalized = (case normalizedData serie of
                          Some nd \<Rightarrow> Some (js_nth nd Undefined (int idx))
                        | None \<Rightarrow> None)\<rparr>)"

text \<open>The bookkeeping of the loop body for a shown series, up to \<^verbatim>\<open>i += 1\<close>:
  \<^verbatim>\<open>sum += (value || 0)\<close> adds a number and nothing for \<^verbatim>\<open>null\<close> or
  \<^verbatim>\<open>undefined\<close>; \<^verbatim>\<open>ys.push(yValue)\<close>.\<close>

definition bookkeep ::
  "utils \<Rightarrow> yagrConfig \<Rightarrow> TooltipOptions \<Rightarrow> cell list list \<Rightarrow> Series list \<Rightarrow> nat \<Rightarrow> loopState
   \<Rightarrow> loopState" where
  "bookkeep ut cfg opts data series idx st =
     (let i = l_i st in
      st\<lparr>l_sum := (if total opts
                    then l_sum st + (case valueAt ut cfg data series idx i of
                                       Num n \<Rightarrow> n | v \<Rightarrow> 0)
                    else l_sum st),
         l_ys := l_ys st @ [yValueAt ut cfg data series idx i],
         l_i := i + 1\<rparr>)"

text \<open>The end of the loop body, for a row that is not skipped:
  \<^verbatim>\<open>rows.push(rowData); rowYs.push(realY)\<close>, for the series at index \<open>i\<close>.\<close>

definition pushRow ::
  "utils \<Rightarrow> yagrConfig \<Rightarrow> TooltipOptions \<Rightarrow> cell list list \<Rightarrow> Series list \<Rightarrow> nat \<Rightarrow> nat
   \<Rightarrow> loopState \<Rightarrow> loopState" where
  "pushRow ut cfg opts data series idx i st =
     st\<lparr>l_rows := l_rows st @ [rowData ut cfg opts data series idx i],
        l_rowYs := l_rowYs st @ [realYAt data idx i]\<rparr>"

text \<open>The loop \<^verbatim>\<open>while (i < u.series.length)\<close>. A series that is not shown is passed
  over. Reading \<^verbatim>\<open>data[i][idx]\<close> for a series without a data array throws.\<close>

function buildRows ::
  "utils \<Rightarrow> yagrConfig \<Rightarrow> TooltipOptions \<Rightarrow> cell list list \<Rightarrow> Series list \<Rightarrow> nat \<Rightarrow> loopState
   \<Rightarrow> error + loopState" where
  "buildRows ut cfg opts data series idx st =
     (if l_i st < length series then
        (if \<not> s_show (series ! l_i st) then
           buildRows ut cfg opts data series idx (st\<lparr>l_i := l_i st + 1\<rparr>)
         else if \<not> l_i st < length data then Inl TypeError
         else if skipRow ut cfg opts data series idx (l_i st) then
           buildRows ut cfg opts data series idx (bookkeep ut cfg opts data series idx st)
         else
           buildRows ut cfg opts data series idx
             (pushRow ut cfg opts data series idx (l_i st)
                (bookkeep ut cfg opts data series idx st)))
      else Inr st)"
  by pat_completeness auto
termination
  by (relation "measure (\<lambda>(ut, cfg, opts, data, series, idx, st). length series - l_i st)")
    (auto simp: bookkeep_def pushRow_def Let_def)

declare buildRows.simps [simp del]

text \<open>The locals before the loop: \<^verbatim>\<open>rows = []\<close>, \<^verbatim>\<open>sum = 0\<close>, \<^verbatim>\<open>i = 1\<close>,
  \<^verbatim>\<open>ys = []\<close>, \<^verbatim>\<open>rowYs = []\<close>.\<close>

definition loopStart :: loopState where
  "loopStart = \<lparr>l_rows = [], l_ys = [], l_rowYs = [], l_sum = 0, l_i = 1\<rparr>"

text \<open>The block \<^verbatim>\<open>if (opts.highlightLines) {...}\<close>: \<^verbatim>\<open>activeIndex\<close> starts as
  \<^verbatim>\<open>i - 1\<close> and is replaced under the Area and Sticky policies; unless it is
  \<^verbatim>\<open>null\<close>, \<^verbatim>\<open>rows[activeIndex].active = true\<close> marks the row, and throws when there
  is no row at that index.\<close>

definition markActive ::
  "utils \<Rightarrow> TooltipOptions \<Rightarrow> TooltipRow list \<Rightarrow> cell list \<Rightarrow> real \<Rightarrow> nat
   \<Rightarrow> error + TooltipRow list" where
  "markActive ut opts rows rowYs cv i =
     (if highlightLines opts then
        (let activeIndex =
               (if tracking opts = Area then findInRange ut rowYs cv False
                else if tracking opts = Sticky then findSticky ut rowYs cv
                else Some (int i - 1))
         in case activeIndex of
              None \<Rightarrow> Inr rows
            | Some k \<Rightarrow>
                (if 0 \<le> k \<and> k < int (length rows)
                 then Inr (rows[nat k := (rows ! nat k)\<lparr>active := True\<rparr>])
                 else Inl TypeError))
      else Inr rows)"

text \<open>\<^verbatim>\<open>rows.sort(cmp)\<close>: a stable sort by the comparator, as an insertion sort. An
  element goes after the elements the comparator does not put behind it.\<close>

fun insertRow :: "('a \<Rightarrow> 'a \<Rightarrow> real) \<Rightarrow> 'a \<Rightarrow> 'a list \<Rightarrow> 'a list" where
  "insertRow cmp x [] = [x]"
| "insertRow cmp x (y # ys) = (if cmp x y < 0 then x # y # ys else y # insertRow cmp x ys)"

definition js_sort :: "('a \<Rightarrow> 'a \<Rightarrow> real) \<Rightarrow> 'a list \<Rightarrow> 'a list" where
  "js_sort cmp xs = foldl (\<lambda>acc x. insertRow cmp x acc) [] xs"

text \<open>\<^verbatim>\<open>if (opts.sort) { rows.sort(opts.sort); }\<close>\<close>

definition sortRows :: "TooltipOptions \<Rightarrow> TooltipRow list \<Rightarrow> TooltipRow list" where
  "sortRows opts rows = (case sort opts of Some cmp \<Rightarrow> js_sort cmp rows | None \<Rightarrow> rows)"

text \<open>The anchor: the pointer plus the offset of \<^verbatim>\<open>over\<close>, moved by the fixed offset to
  the left when the overlay would not fit on the right, to the right otherwise.\<close>

definition mkAnchor :: "uplot \<Rightarrow> real \<Rightarrow> anchor" where
  "mkAnchor u top_px =
     (let a = \<lparr>a_left = u_left u + bbox_left u, a_top = bbox_top u + top_px - ANCHOR_Y_OFFSET\<rparr>
      in if bodyClientWidth u - a_left a < overlayClientWidth u - ANCHOR_Y_OFFSET
         then a\<lparr>a_left := a_left a - ANCHOR_Y_OFFSET\<rparr>
         else a\<lparr>a_left := a_left a + ANCHOR_Y_OFFSET\<rparr>)"

text \<open>\<^verbatim>\<open>u.series.filter((s) => s.showInTooltip !== false).length - 1\<close>\<close>

definition availableLines :: "Series list \<Rightarrow> int" where
  "availableLines series = int (length (filter (\<lambda>s. showInTooltip s \<noteq> Some False) series)) - 1"

text \<open>The hook \<^verbatim>\<open>setCursor\<close>, in three parts. The first statement: a cursor outside
  the plot hides the tooltip unless it is pinned.\<close>

definition leavePlot :: "TooltipOptions \<Rightarrow> uplot \<Rightarrow> plugin \<Rightarrow> plugin" where
  "leavePlot opts u s =
     (if (u_left u < 0 \<or> (case u_top u of Some t \<Rightarrow> t < 0 | None \<Rightarrow> False)) \<and> \<not> pinned s
      then hide opts s else s)"

text \<open>The statements after \<^verbatim>\<open>onMouseEnter()\<close>, for the locals \<open>st\<close> the loop has
  left, the cursor's \<^verbatim>\<open>top\<close> and the value \<open>x\<close>: the active row is marked and the
  rows are sorted; \<^verbatim>\<open>over.getBoundingClientRect()\<close> is read for the anchor, which throws
  while \<^verbatim>\<open>over\<close> is undefined (the \<^verbatim>\<open>init\<close> hook has not run); the closure is
  assigned to \<^verbatim>\<open>renderTooltipCloses\<close>, and it is called unless the tooltip is
  pinned.\<close>

definition renderRows ::
  "utils \<Rightarrow> TooltipOptions \<Rightarrow> uplot \<Rightarrow> real \<Rightarrow> cell \<Rightarrow> loopState \<Rightarrow> plugin
   \<Rightarrow> error option \<times> plugin" where
  "renderRows ut opts u top_px x st s =
     (case markActive ut opts (l_rows st) (l_rowYs st) (cursorValue u) (l_i st) of
        Inl e \<Rightarrow> (Some e, s)
      | Inr rows \<Rightarrow>
          (let sorted = sortRows opts rows in
           if \<not> overSet s then (Some TypeError, s)
           else
             (let s3 = s\<lparr>renderTooltipCloses :=
                          RenderClosure sorted (availableLines (u_series u)) x
                            (l_sum st) (mkAnchor u top_px)\<rparr>
              in if pinned s3 then (None, s3)
                 else (None, callRenderTooltipCloses opts s3))))"

text \<open>The hook itself. The result is what the handler throws, if anything, and the state
  it leaves. Without data, index or \<^verbatim>\<open>top\<close>, or outside the viewport, it returns after
  the first statement; \<^verbatim>\<open>data[0][idx]\<close> throws on an empty \<^verbatim>\<open>data\<close>.\<close>

definition setCursor ::
  "utils \<Rightarrow> yagrConfig \<Rightarrow> TooltipOptions \<Rightarrow> uplot \<Rightarrow> plugin \<Rightarrow> error option \<times> plugin" where
  "setCursor ut cfg opts u s =
     (let s1 = leavePlot opts u s
      in case (u_data u, u_idx u, u_top u) of
           (Some data, Some idx, Some top_px) \<Rightarrow>
             (if \<not> inViewPort u then (None, s1)
              else if data = [] then (Some TypeError, s1)
              else
                (case buildRows ut cfg opts data (u_series u) idx loopStart of
                   Inl e \<Rightarrow> (Some e, s1)
                 | Inr st \<Rightarrow>
                     (if l_rows st = [] then (None, onMouseLeave opts s1)
                      else renderRows ut opts u top_px (js_nth (hd data) Undefined (int idx)) st
                             (onMouseEnter opts s1))))
         | _ \<Rightarrow> (None, s1))"

subsection \<open>Sequences of events\<close>

text \<open>What can happen to a plugin instance: a call of one of the public actions
  \<^verbatim>\<open>show\<close>, \<^verbatim>\<open>hide\<close>, \<^verbatim>\<open>pin\<close>; a pointer event on \<^verbatim>\<open>over\<close>; a mouse-down on the
  document; one of the hooks.\<close>

datatype event =
    CallShow | CallHide | CallPin bool
  | MouseDown real | MouseUp real | MouseEnter | MouseLeave
  | DocMouseDown bool bool bool
  | HookInit | HookSetCursor uplot | HookDestroy

text \<open>One event. A pointer event reaches its handler while the listeners on
  \<^verbatim>\<open>over\<close> are attached, a document event while the document listeners are. An
  exception leaves the state as the handler left it.\<close>

definition step :: "utils \<Rightarrow> yagrConfig \<Rightarrow> TooltipOptions \<Rightarrow> event \<Rightarrow> plugin \<Rightarrow> plugin" where
  "step ut cfg opts ev s =
     (case ev of
        CallShow \<Rightarrow> show_fn opts s
      | CallHide \<Rightarrow> hide opts s
      | CallPin b \<Rightarrow> snd (pin opts b s)
      | MouseDown x \<Rightarrow> (if overListeners s then onMouseDown x s else s)
      | MouseUp x \<Rightarrow> (if overListeners s then snd (onMouseUp opts x s) else s)
      | MouseEnter \<Rightarrow> (if overListeners s then onMouseEnter opts s else s)
      | MouseLeave \<Rightarrow> (if overListeners s then onMouseLeave opts s else s)
      | DocMouseDown e t ov \<Rightarrow>
          (if docListeners s then snd (detectClickOutside opts e t ov s) else s)
      | HookInit \<Rightarrow> init_hook s
      | HookSetCursor u \<Rightarrow> snd (setCursor ut cfg opts u s)
      | HookDestroy \<Rightarrow> snd (destroy opts s))"

definition run :: "utils \<Rightarrow> yagrConfig \<Rightarrow> TooltipOptions \<Rightarrow> event list \<Rightarrow> plugin \<Rightarrow> plugin" where
  "run ut cfg opts evs s = foldl (\<lambda>st ev. step ut cfg opts ev st) s evs"

subsection \<open>The shape that the error message of setData names\<close>

text \<open>\<^verbatim>\<open>number[][]\<close>, the shape that the message of the error thrown by
  \<^verbatim>\<open>setData\<close> names: an array whose elements are arrays of numbers.\<close>

fun isNumber :: "jsval \<Rightarrow> bool" where
  "isNumber (JNum n) = True"
| "isNumber v = False"

fun isNumberArray :: "jsval \<Rightarrow> bool" where
  "isNumberArray (JArr xs) = list_all isNumber xs"
| "isNumberArray v = False"

fun arrayOfNumericArrays :: "jsval \<Rightarrow> bool" where
  "arrayOfNumericArrays (JArr xs) = list_all isNumberArray xs"
| "arrayOfNumericArrays v = False"

subsection \<open>Configurations and inputs for the examples\<close>

text \<open>The defaults that the constructor merges the options into, for a value formatter
  \<open>fmt\<close> (\<^verbatim>\<open>tracking: TrackingOptions.Sticky, maxLines: DEFAULT_MAX_LINES,
  highlightLines: true, total: true, render: renderTooltip, pinable: true, sort: undefined,
  hideNoData: false\<close>, no callback).\<close>

definition defaults :: "(cell \<Rightarrow> real option \<Rightarrow> string) \<Rightarrow> TooltipOptions" where
  "defaults fmt =
     \<lparr>tracking = Sticky, maxLines = 10, highlightLines = True, total = True,
      defaultRender = True, pinable = True, opt_value = fmt, sort = None,
      hideNoData = False, onStateChange = False\<rparr>"

text \<open>An example configuration: the defaults, a formatter that prints nothing, and a
  callback that observes the notifications.\<close>

definition exampleOpts :: TooltipOptions where
  "exampleOpts = (defaults (\<lambda>v p. []))\<lparr>onStateChange := True\<rparr>"

text \<open>Example stand-ins for the three imported functions: the index itself, and no
  selection.\<close>

definition exampleUtils :: utils where
  "exampleUtils =
     \<lparr>findDataIdx = (\<lambda>source serie idx snapTo stripValue. int idx),
      findInRange = (\<lambda>ys cv b. None),
      findSticky = (\<lambda>ys cv. None)\<rparr>"

definition exampleConfig :: yagrConfig where
  "exampleConfig = \<lparr>cfg_cursor = \<lparr>snapToValues = SnapUnset\<rparr>, interpolationValue = Null\<rparr>"

text \<open>An example series with the given name, visibility and tooltip flag.\<close>

definition exampleSeries :: "string \<Rightarrow> bool \<Rightarrow> bool option \<Rightarrow> Series" where
  "exampleSeries n shown inTooltip =
     \<lparr>s_show = shown, showInTooltip = inTooltip, s_name = n, s_color = ''red'',
      c_src = None, formatter = None, precision = None, normalizedData = None\<rparr>"

text \<open>An example cursor update at index 0, inside the plot, over the given data and
  series.\<close>

definition exampleCursor :: "cell list list \<Rightarrow> Series list \<Rightarrow> uplot" where
  "exampleCursor data series =
     \<lparr>u_left = 10, u_top = Some 10, u_idx = Some 0, u_data = Some data, u_series = series,
      inViewPort = True, cursorValue = 15, bbox_left = 0, bbox_top = 0,
      bodyClientWidth = 1000, overlayClientWidth = 100\<rparr>"

text \<open>An example state: the plugin after the \<^verbatim>\<open>init\<close> hook and a click at
  coordinate 5, which pins the tooltip and shows it.\<close>

definition examplePinned :: plugin where
  "examplePinned =
     run exampleUtils exampleConfig exampleOpts [HookInit, MouseDown 5, MouseUp 5]
       (created exampleOpts)"

text \<open>The example configuration with tracking switched off.\<close>

definition exampleOptsNoTracking :: TooltipOptions where
  "exampleOptsNoTracking = exampleOpts\<lparr>tracking := TrackingNone\<rparr>"

text \<open>Example stand-ins where \<open>findSticky\<close> tells whether the cursor value occurs in the
  sequence it is given: it selects row 0 if so, and nothing otherwise.\<close>

definition spyUtils :: utils where
  "spyUtils = exampleUtils\<lparr>findSticky := (\<lambda>ys cv. if Num cv \<in> set ys then Some 0 else None)\<rparr>"

text \<open>An example cursor update over one data series that is not shown.\<close>

definition hiddenCursor :: uplot where
  "hiddenCursor = exampleCursor [[Num 0], [Num 5]]
     [exampleSeries ''x'' True None, exampleSeries ''a'' False None]"

text \<open>An example cursor update over one shown data series with the value \<open>v\<close>.\<close>

definition cursorOver :: "real \<Rightarrow> uplot" where
  "cursorOver v = exampleCursor [[Num 0], [Num v]]
     [exampleSeries ''x'' True None, exampleSeries ''a'' True None]"

text \<open>Example data, series and loop locals: series \<open>a\<close> is shown in the tooltip, series
  \<open>b\<close> is shown on the chart and opts out of the tooltip
  (\<^verbatim>\<open>showInTooltip: false\<close>).\<close>

definition skippedData :: "cell list list" where
  "skippedData = [[Num 0], [Num 10], [Num 20]]"

definition skippedSeries :: "Series list" where
  "skippedSeries = [exampleSeries ''x'' True None, exampleSeries ''a'' True None,
                    exampleSeries ''b'' True (Some False)]"

definition skippedLocals :: loopState where
  "skippedLocals =
     \<lparr>l_rows = [\<lparr>row_name = ''a'', originalValue = Num 10, row_value = [], row_y = Num 10,
                  row_color = ''red'', active = False, normalized = None\<rparr>],
      l_ys = [Num 10, Num 20], l_rowYs = [Num 10], l_sum = 30, l_i = 3\<rparr>"

text \<open>The cursor update over the example data and series above, with the cursor value
  \<open>cv\<close>.\<close>

definition skippedCursor :: "real \<Rightarrow> uplot" where
  "skippedCursor cv = (exampleCursor skippedData skippedSeries)\<lparr>cursorValue := cv\<rparr>"

section \<open>Properties\<close>

subsection \<open>Notifications, show and hide\<close>

lemma emit_fields [simp]:
  "pinned (emit opts a s) = pinned s"
  "visible (emit opts a s) = visible s"
  "mounted (emit opts a s) = mounted s"
  "clickStartedX (emit opts a s) = clickStartedX s"
  "overlay_display (emit opts a s) = overlay_display s"
  "rendered (emit opts a s) = rendered s"
  "renderTooltipCloses (emit opts a s) = renderTooltipCloses s"
  "overSet (emit opts a s) = overSet s"
  by (simp_all add: emit_def)

lemma emit_emitted:
  "emitted (emit opts a s) = emitted s @ (if onStateChange opts then [a] else [])"
  by (simp add: emit_def)

text \<open>
  Claim C8. Every call of \<^verbatim>\<open>show()\<close> leaves \<open>visible = true\<close> and the overlay
  displayed; it passes exactly one notification, tagged \<open>show\<close>, to the configured
  callback when \<open>visible\<close> was false before the call, and none when the tooltip was
  already visible. A second call in a row emits nothing more.
\<close>

theorem show_emits_on_rising_edge:
  "visible (show_fn opts s) = True
   \<and> overlay_display (show_fn opts s) = DisplayBlock
   \<and> emitted (show_fn opts s) =
       emitted s @ (if \<not> visible s \<and> onStateChange opts then [Show] else [])
   \<and> emitted (show_fn opts (show_fn opts s)) = emitted (show_fn opts s)"
  by (simp add: show_fn_def Let_def emit_emitted)

text \<open>
  Claim C1, what the code does. Every call of \<^verbatim>\<open>hide()\<close> clears \<open>visible\<close> and
  hides the overlay. With a callback configured, every call emits a notification tagged
  \<open>hide\<close>, and a call on a visible tooltip emits a second one, tagged \<open>show\<close>. So
  two calls in a row on a visible tooltip emit three notifications, \<open>hide\<close>, \<open>show\<close>,
  \<open>hide\<close>, and two calls on a hidden tooltip emit two.
\<close>

theorem hide_twice_emits:
  "emitted (hide opts (hide opts s)) =
     emitted s @ (if onStateChange opts
                  then (if visible s then [Hide, Show, Hide] else [Hide, Hide])
                  else [])
   \<and> emitted (hide opts s) =
     emitted s @ (if onStateChange opts
                  then (if visible s then [Hide, Show] else [Hide])
                  else [])
   \<and> visible (hide opts s) = False
   \<and> overlay_display (hide opts s) = DisplayNone"
  by (simp add: hide_def Let_def emit_emitted)

subsection \<open>Click detection\<close>

text \<open>
  Claim C10. When the horizontal coordinate recorded at pointer-down is exactly 0, a
  pointer-up changes nothing, whatever its coordinate: the guard reads the stored 0 as
  "no click recorded". In particular a click at coordinate 0 does not toggle \<open>pinned\<close>.
\<close>

theorem mouse_up_after_down_at_zero:
  "clickStartedX s = Some 0 \<Longrightarrow> onMouseUp opts clientX s = (None, s)"
  by (simp add: onMouseUp_def truthy_def)

theorem mouse_up_after_down_at_zero_witness:
  "clickStartedX (onMouseDown 0 (init_hook (created exampleOpts))) = Some 0
   \<and> pinable exampleOpts
   \<and> pinned (snd (onMouseUp exampleOpts 0 (onMouseDown 0 (init_hook (created exampleOpts)))))
       = pinned (onMouseDown 0 (init_hook (created exampleOpts)))"
  using mouse_up_after_down_at_zero
    [of "onMouseDown 0 (init_hook (created exampleOpts))" exampleOpts 0]
  by (simp add: onMouseDown_def exampleOpts_def defaults_def)

subsection \<open>The value resolver\<close>

text \<open>
  Claim C5. The resolver reads the display-source array \<^verbatim>\<open>serie.$c\<close> when the series
  has one and the plotted array otherwise. The gap-marker it compares with is its
  parameter \<^verbatim>\<open>stripValue\<close> after the default \<^verbatim>\<open>null\<close> has been applied. When the
  value at the index is not that gap-marker, that value is the result, whatever the
  helper \<^verbatim>\<open>findDataIdx\<close> is (it is not consulted). The function is a pure function of
  its arguments: its body writes to no array.
\<close>

theorem findValue_not_gap:
  "js_nth (case c_src serie of Some c \<Rightarrow> c | None \<Rightarrow> data) Undefined (int idx)
     \<noteq> defaultNull stripValue
   \<Longrightarrow> findValue ut cursor data serie idx stripValue
       = js_nth (case c_src serie of Some c \<Rightarrow> c | None \<Rightarrow> data) Undefined (int idx)"
  by (simp add: findValue_def Let_def)

theorem findValue_not_gap_witness:
  "findValue exampleUtils \<lparr>snapToValues = SnapUnset\<rparr> [Num 7, Num 8]
      ((exampleSeries ''a'' True None)\<lparr>c_src := Some [Num 1, Null]\<rparr>) 0 Null = Num 1
   \<and> findValue exampleUtils \<lparr>snapToValues = SnapUnset\<rparr> [Num 7, Num 8]
      (exampleSeries ''a'' True None) 1 Undefined = Num 8"
  using findValue_not_gap [where serie = "(exampleSeries ''a'' True None)\<lparr>c_src := Some [Num 1, Null]\<rparr>"
      and data = "[Num 7, Num 8]" and idx = 0 and stripValue = Null and ut = exampleUtils
      and cursor = "\<lparr>snapToValues = SnapUnset\<rparr>"]
    findValue_not_gap [where serie = "exampleSeries ''a'' True None"
      and data = "[Num 7, Num 8]" and idx = 1 and stripValue = Undefined and ut = exampleUtils
      and cursor = "\<lparr>snapToValues = SnapUnset\<rparr>"]
  by (simp add: exampleSeries_def js_nth_def defaultNull_def)

text \<open>With an undefined gap-marker the comparison is with \<^verbatim>\<open>null\<close>: a \<^verbatim>\<open>null\<close> sample
  is a gap, and the helper decides which index is read instead.\<close>

lemma findValue_undefined_marker:
  "findValue ut cursor [Null, Num 8] (exampleSeries ''a'' True None) 0 Undefined
     = js_nth [Null, Num 8] Undefined
         (findDataIdx ut [Null, Num 8] (exampleSeries ''a'' True None) 0
            (case snapToValues cursor of SnapFalse \<Rightarrow> None | SnapTo v \<Rightarrow> Some v
                                       | SnapUnset \<Rightarrow> Some Closest) Null)"
  by (simp add: findValue_def exampleSeries_def js_nth_def defaultNull_def Let_def)

subsection \<open>setData\<close>

text \<open>
  Claim C4, as stated, fails: an array whose only element is an array of strings is not an
  array of numeric arrays, and \<^verbatim>\<open>setData\<close> accepts it.
\<close>

theorem setData_accepts_string_arrays:
  "\<not> arrayOfNumericArrays (JArr [JArr [JStr ''a'']])
   \<and> setData (JArr [JArr [JStr ''a'']]) = None"
  by (simp add: setData_def)

text \<open>
  Claim C4, amended. \<^verbatim>\<open>setData\<close> throws exactly when its data is not an array whose
  elements are all arrays; what the inner arrays hold is not inspected. The hook does
  nothing else: it reads no state and writes none.
\<close>

theorem setData_throws_iff:
  "(setData d = None) = (\<exists>xs. d = JArr xs \<and> list_all isArray xs)"
  by (cases d) (auto simp: setData_def)

subsection \<open>Invariants of the loop\<close>

lemma buildRows_invariant:
  assumes "buildRows ut cfg opts data series idx st = Inr st'"
    and "P st"
    and "\<And>t. P t \<Longrightarrow> l_i t < length series \<Longrightarrow> \<not> s_show (series ! l_i t)
            \<Longrightarrow> P (t\<lparr>l_i := l_i t + 1\<rparr>)"
    and "\<And>t. P t \<Longrightarrow> l_i t < length series \<Longrightarrow> s_show (series ! l_i t) \<Longrightarrow> l_i t < length data
            \<Longrightarrow> skipRow ut cfg opts data series idx (l_i t)
            \<Longrightarrow> P (bookkeep ut cfg opts data series idx t)"
    and "\<And>t. P t \<Longrightarrow> l_i t < length series \<Longrightarrow> s_show (series ! l_i t) \<Longrightarrow> l_i t < length data
            \<Longrightarrow> \<not> skipRow ut cfg opts data series idx (l_i t)
            \<Longrightarrow> P (pushRow ut cfg opts data series idx (l_i t)
                      (bookkeep ut cfg opts data series idx t))"
  shows "P st'"
  using assms
proof (induction ut cfg opts data series idx st rule: buildRows.induct)
  case (1 ut cfg opts data series idx st)
  show ?case
  proof (cases "l_i st < length series")
    case False
    with "1.prems" show ?thesis by (simp add: buildRows.simps)
  next
    case inb: True
    show ?thesis
    proof (cases "s_show (series ! l_i st)")
      case False
      with inb "1.prems" have "buildRows ut cfg opts data series idx (st\<lparr>l_i := l_i st + 1\<rparr>) = Inr st'"
        by (subst (asm) buildRows.simps) simp
      moreover have "P (st\<lparr>l_i := l_i st + 1\<rparr>)" using "1.prems"(3) "1.prems"(2) inb False by blast
      ultimately show ?thesis using "1.IH"(1) [OF inb False] "1.prems"(3,4,5) by blast
    next
      case shown: True
      show ?thesis
      proof (cases "l_i st < length data")
        case False
        with inb shown "1.prems" show ?thesis by (subst (asm) buildRows.simps) simp
      next
        case hasData: True
        show ?thesis
        proof (cases "skipRow ut cfg opts data series idx (l_i st)")
          case True
          with inb shown hasData "1.prems"
          have "buildRows ut cfg opts data series idx (bookkeep ut cfg opts data series idx st) = Inr st'"
            by (subst (asm) buildRows.simps) simp
          moreover have "P (bookkeep ut cfg opts data series idx st)"
            using "1.prems"(4) "1.prems"(2) inb shown hasData True by blast
          ultimately show ?thesis using "1.IH"(2) "1.prems"(3,4,5) inb shown hasData True by blast
        next
          case False
          with inb shown hasData "1.prems"
          have "buildRows ut cfg opts data series idx
                  (pushRow ut cfg opts data series idx (l_i st) (bookkeep ut cfg opts data series idx st)) = Inr st'"
            by (subst (asm) buildRows.simps) simp
          moreover have "P (pushRow ut cfg opts data series idx (l_i st) (bookkeep ut cfg opts data series idx st))"
            using "1.prems"(5) "1.prems"(2) inb shown hasData False by blast
          ultimately show ?thesis using "1.IH"(3) "1.prems"(3,4,5) inb shown hasData False by blast
        qed
      qed
    qed
  qed
qed

lemma buildRows_rows_inactive:
  assumes "buildRows ut cfg opts data series idx st = Inr st'"
    and "list_all (\<lambda>r. \<not> active r) (l_rows st)"
  shows "list_all (\<lambda>r. \<not> active r) (l_rows st')"
  by (rule buildRows_invariant [OF assms(1), where P = "\<lambda>t. list_all (\<lambda>r. \<not> active r) (l_rows t)"])
    (simp_all add: assms(2) bookkeep_def pushRow_def rowData_def Let_def)

lemma buildRows_rows_below_i:
  assumes "buildRows ut cfg opts data series idx st = Inr st'"
    and "length (l_rows st) < l_i st"
  shows "length (l_rows st') < l_i st'"
  by (rule buildRows_invariant [OF assms(1), where P = "\<lambda>t. length (l_rows t) < l_i t"])
    (simp_all add: assms(2) bookkeep_def pushRow_def Let_def)

lemma buildRows_rowYs_length:
  assumes "buildRows ut cfg opts data series idx st = Inr st'"
    and "length (l_rowYs st) = length (l_rows st)"
  shows "length (l_rowYs st') = length (l_rows st')"
  by (rule buildRows_invariant [OF assms(1), where P = "\<lambda>t. length (l_rowYs t) = length (l_rows t)"])
    (simp_all add: assms(2) bookkeep_def pushRow_def Let_def)

subsection \<open>What the handlers leave unchanged\<close>

lemma show_fn_fields [simp]:
  "pinned (show_fn opts s) = pinned s"
  "mounted (show_fn opts s) = mounted s"
  "rendered (show_fn opts s) = rendered s"
  "renderTooltipCloses (show_fn opts s) = renderTooltipCloses s"
  "overSet (show_fn opts s) = overSet s"
  "clickStartedX (show_fn opts s) = clickStartedX s"
  by (simp_all add: show_fn_def Let_def)

lemma hide_fields [simp]:
  "pinned (hide opts s) = pinned s"
  "mounted (hide opts s) = mounted s"
  "rendered (hide opts s) = rendered s"
  "renderTooltipCloses (hide opts s) = renderTooltipCloses s"
  "overSet (hide opts s) = overSet s"
  "clickStartedX (hide opts s) = clickStartedX s"
  by (simp_all add: hide_def Let_def)

lemma pin_fields [simp]:
  "pinned (snd (pin opts b s)) = b"
  "mounted (snd (pin opts b s)) = mounted s"
  "rendered (snd (pin opts b s)) = rendered s"
  "renderTooltipCloses (snd (pin opts b s)) = renderTooltipCloses s"
  "overSet (snd (pin opts b s)) = overSet s"
  by (simp_all add: pin_def Let_def)


lemma callRender_fields [simp]:
  "pinned (callRenderTooltipCloses opts s) = pinned s"
  "mounted (callRenderTooltipCloses opts s) = mounted s"
  "renderTooltipCloses (callRenderTooltipCloses opts s) = renderTooltipCloses s"
  "overSet (callRenderTooltipCloses opts s) = overSet s"
  by (simp_all add: callRenderTooltipCloses_def split: closure.splits)

lemma onMouseLeave_fields [simp]:
  "pinned (onMouseLeave opts s) = pinned s"
  "mounted (onMouseLeave opts s) = mounted s"
  "rendered (onMouseLeave opts s) = rendered s"
  "renderTooltipCloses (onMouseLeave opts s) = renderTooltipCloses s"
  by (simp_all add: onMouseLeave_def)

lemma onMouseEnter_fields [simp]:
  "pinned (onMouseEnter opts s) = pinned s"
  "mounted (onMouseEnter opts s) = mounted s"
  "rendered (onMouseEnter opts s) = rendered s"
  "renderTooltipCloses (onMouseEnter opts s) = renderTooltipCloses s"
  "overSet (onMouseEnter opts s) = overSet s"
  by (simp_all add: onMouseEnter_def)

lemma onMouseUp_mounted [simp]: "mounted (snd (onMouseUp opts x s)) = mounted s"
proof (cases "pin opts (\<not> pinned s) s")
  case (Pair e s1)
  then have m: "mounted s1 = mounted s" using pin_fields(2) [of opts "\<not> pinned s" s] by simp
  show ?thesis
  proof (cases e)
    case None
    with Pair m show ?thesis by (simp add: onMouseUp_def)
  next
    case (Some a)
    with Pair m show ?thesis by (simp add: onMouseUp_def)
  qed
qed

lemma detectClickOutside_mounted [simp]:
  "mounted (snd (detectClickOutside opts e t ov s)) = mounted s"
proof (cases "pin opts False s")
  case (Pair r s1)
  then have m: "mounted s1 = mounted s" using pin_fields(2) [of opts False s] by simp
  show ?thesis
  proof (cases r)
    case None
    with Pair m show ?thesis by (simp add: detectClickOutside_def)
  next
    case (Some a)
    with Pair m show ?thesis by (simp add: detectClickOutside_def)
  qed
qed

lemma leavePlot_fields [simp]:
  "pinned (leavePlot opts u s) = pinned s"
  "mounted (leavePlot opts u s) = mounted s"
  "rendered (leavePlot opts u s) = rendered s"
  "renderTooltipCloses (leavePlot opts u s) = renderTooltipCloses s"
  "overSet (leavePlot opts u s) = overSet s"
  by (simp_all add: leavePlot_def)

lemma renderRows_fields [simp]:
  "pinned (snd (renderRows ut opts u t x st s)) = pinned s"
  "mounted (snd (renderRows ut opts u t x st s)) = mounted s"
  by (simp_all add: renderRows_def Let_def split: sum.splits)

lemma setCursor_shape:
  assumes "\<And>e. P (e, leavePlot opts u s)"
    and "\<And>data idx t st. u_data u = Some data \<Longrightarrow> u_idx u = Some idx \<Longrightarrow> u_top u = Some t
           \<Longrightarrow> buildRows ut cfg opts data (u_series u) idx loopStart = Inr st
           \<Longrightarrow> l_rows st = []
           \<Longrightarrow> P (None, onMouseLeave opts (leavePlot opts u s))"
    and "\<And>data idx t st. u_data u = Some data \<Longrightarrow> u_idx u = Some idx \<Longrightarrow> u_top u = Some t
           \<Longrightarrow> buildRows ut cfg opts data (u_series u) idx loopStart = Inr st
           \<Longrightarrow> l_rows st \<noteq> []
           \<Longrightarrow> P (renderRows ut opts u t (js_nth (hd data) Undefined (int idx)) st
                    (onMouseEnter opts (leavePlot opts u s)))"
  shows "P (setCursor ut cfg opts u s)"
proof (cases "u_data u")
  case None
  then show ?thesis using assms(1) by (simp add: setCursor_def)
next
  case data: (Some data)
  show ?thesis
  proof (cases "u_idx u")
    case None
    then show ?thesis using assms(1) data by (simp add: setCursor_def)
  next
    case idx: (Some idx)
    show ?thesis
    proof (cases "u_top u")
      case None
      then show ?thesis using assms(1) data idx by (simp add: setCursor_def)
    next
      case top: (Some t)
      show ?thesis
      proof (cases "buildRows ut cfg opts data (u_series u) idx loopStart")
        case (Inl e)
        then show ?thesis using assms(1) data idx top by (simp add: setCursor_def Let_def)
      next
        case (Inr st)
        show ?thesis
        proof (cases "l_rows st = []")
          case True
          then show ?thesis
            using assms(1) assms(2) [OF data idx top Inr True] data idx top Inr
            by (simp add: setCursor_def Let_def)
        next
          case False
          then show ?thesis
            using assms(1) assms(3) [OF data idx top Inr False] data idx top Inr
            by (simp add: setCursor_def Let_def)
        qed
      qed
    qed
  qed
qed

lemma setCursor_mounted [simp]: "mounted (snd (setCursor ut cfg opts u s)) = mounted s"
  by (rule setCursor_shape [where P = "\<lambda>r. mounted (snd r) = mounted s"]) simp_all

lemma setCursor_pinned [simp]: "pinned (snd (setCursor ut cfg opts u s)) = pinned s"
  by (rule setCursor_shape [where P = "\<lambda>r. pinned (snd r) = pinned s"]) simp_all

lemma step_mounted:
  "ev \<noteq> HookDestroy \<Longrightarrow> mounted (step ut cfg opts ev s) = mounted s"
  by (cases ev) (simp_all add: step_def onMouseDown_def init_hook_def)

lemma created_mounted: "mounted (created opts)"
  by (simp add: created_def)

lemma destroy_fields:
  "pinned (snd (destroy opts s)) = pinned s"
  "overSet s \<Longrightarrow> \<not> mounted (snd (destroy opts s))"
  by (simp_all add: destroy_def Let_def)

lemma run_mounted:
  "HookDestroy \<notin> set evs \<Longrightarrow> mounted (run ut cfg opts evs s) = mounted s"
proof (induction evs arbitrary: s)
  case Nil
  show ?case by (simp add: run_def)
next
  case (Cons ev evs)
  from Cons.prems have ne: "ev \<noteq> HookDestroy" and rest: "HookDestroy \<notin> set evs" by auto
  have "run ut cfg opts (ev # evs) s = run ut cfg opts evs (step ut cfg opts ev s)"
    by (simp add: run_def)
  then show ?case using Cons.IH [OF rest, of "step ut cfg opts ev s"] step_mounted [OF ne]
    by simp
qed

lemma insertRow_set: "set (insertRow cmp x ys) = insert x (set ys)"
  by (induction ys) auto

lemma js_sort_set: "set (js_sort cmp xs) = set xs"
proof -
  have "set (foldl (\<lambda>acc x. insertRow cmp x acc) acc xs) = set acc \<union> set xs" for acc
    by (induction xs arbitrary: acc) (auto simp: insertRow_set)
  then show ?thesis by (simp add: js_sort_def)
qed

lemma sortRows_set: "set (sortRows opts rows) = set rows"
  by (simp add: sortRows_def js_sort_set split: option.splits)

lemma markActive_tracking_none:
  assumes "tracking opts = TrackingNone" and "length rows < i"
  shows "markActive ut opts rows rowYs cv i = (if highlightLines opts then Inl TypeError else Inr rows)"
  using assms by (simp add: markActive_def Let_def)

lemma buildRows_start_inactive:
  assumes "buildRows ut cfg opts data series idx loopStart = Inr st"
  shows "list_all (\<lambda>r. \<not> active r) (l_rows st)" and "length (l_rows st) < l_i st"
proof -
  show "list_all (\<lambda>r. \<not> active r) (l_rows st)"
    using buildRows_rows_inactive [OF assms] by (simp add: loopStart_def)
  show "length (l_rows st) < l_i st"
    using buildRows_rows_below_i [OF assms] by (simp add: loopStart_def)
qed

lemma renderRows_tracking_none:
  assumes "tracking opts = TrackingNone"
    and "list_all (\<lambda>r. \<not> active r) (l_rows st)" and "length (l_rows st) < l_i st"
  shows "(rendered (snd (renderRows ut opts u t x st s)) = rendered s
          \<or> (\<exists>rc. rendered (snd (renderRows ut opts u t x st s)) = rendered s @ [rc]
                   \<and> list_all (\<lambda>r. \<not> active r) (rc_rows rc)))
       \<and> (renderTooltipCloses (snd (renderRows ut opts u t x st s)) = renderTooltipCloses s
          \<or> (\<exists>rows l x' sm a.
                renderTooltipCloses (snd (renderRows ut opts u t x st s)) = RenderClosure rows l x' sm a
                \<and> list_all (\<lambda>r. \<not> active r) rows))"
proof (cases "highlightLines opts")
  case True
  then show ?thesis
    using markActive_tracking_none [OF assms(1,3)] by (simp add: renderRows_def)
next
  case False
  have sorted: "list_all (\<lambda>r. \<not> active r) (sortRows opts (l_rows st))"
    using assms(2) by (simp add: list_all_iff sortRows_set)
  from False have m: "markActive ut opts (l_rows st) (l_rowYs st) (cursorValue u) (l_i st) = Inr (l_rows st)"
    using markActive_tracking_none [OF assms(1,3)] by simp
  show ?thesis
    using sorted by (simp add: renderRows_def m Let_def callRenderTooltipCloses_def)
qed

lemma buildRows_exit:
  "buildRows ut cfg opts data series idx st = Inr st' \<Longrightarrow> length series \<le> l_i st'"
proof (induction ut cfg opts data series idx st rule: buildRows.induct)
  case (1 ut cfg opts data series idx st)
  show ?case
  proof (cases "l_i st < length series")
    case False
    with "1.prems" show ?thesis by (simp add: buildRows.simps)
  next
    case True
    from "1.prems" True show ?thesis
      by (subst (asm) buildRows.simps) (auto split: if_splits intro: "1.IH")
  qed
qed

lemma buildRows_sequences:
  assumes "buildRows ut cfg opts data series idx st = Inr st'"
  shows "l_ys st' = l_ys st @ map (yValueAt ut cfg data series idx)
                      (filter (\<lambda>j. s_show (series ! j)) [l_i st..<length series])
       \<and> l_rowYs st' = l_rowYs st @ map (realYAt data idx)
                      (filter (\<lambda>j. s_show (series ! j) \<and> \<not> skipRow ut cfg opts data series idx j)
                         [l_i st..<length series])
       \<and> l_rows st' = l_rows st @ map (rowData ut cfg opts data series idx)
                      (filter (\<lambda>j. s_show (series ! j) \<and> \<not> skipRow ut cfg opts data series idx j)
                         [l_i st..<length series])"
proof -
  let ?S = "\<lambda>j. s_show (series ! j)"
  let ?E = "\<lambda>j. s_show (series ! j) \<and> \<not> skipRow ut cfg opts data series idx j"
  let ?P = "\<lambda>t. l_i st \<le> l_i t \<and> l_i t \<le> max (l_i st) (length series)
      \<and> l_ys t = l_ys st @ map (yValueAt ut cfg data series idx) (filter ?S [l_i st..<l_i t])
      \<and> l_rowYs t = l_rowYs st @ map (realYAt data idx) (filter ?E [l_i st..<l_i t])
      \<and> l_rows t = l_rows st @ map (rowData ut cfg opts data series idx) (filter ?E [l_i st..<l_i t])"
  have inv: "?P st'"
    by (rule buildRows_invariant [OF assms, where P = ?P])
      (auto simp: bookkeep_def pushRow_def Let_def)
  have ex: "length series \<le> l_i st'" by (rule buildRows_exit [OF assms])
  have "[l_i st..<l_i st'] = [l_i st..<length series]"
  proof (cases "l_i st \<le> length series")
    case True
    with inv ex have "l_i st' = length series" by (simp add: max_def)
    then show ?thesis by simp
  next
    case False
    with inv have "l_i st' = l_i st" by (simp add: max_def)
    with False show ?thesis by simp
  qed
  with inv show ?thesis by simp
qed

lemma empty_rows:
  assumes "u_data u = Some data" and "u_idx u = Some idx" and "u_top u = Some t"
    and "inViewPort u" and "data \<noteq> []"
    and "buildRows ut cfg opts data (u_series u) idx loopStart = Inr st"
    and "l_rows st = []"
  shows "setCursor ut cfg opts u s
           = (None, if pinned s then s else hide opts (leavePlot opts u s))
       \<and> rendered (snd (setCursor ut cfg opts u s)) = rendered s
       \<and> renderTooltipCloses (snd (setCursor ut cfg opts u s)) = renderTooltipCloses s"
  using assms by (simp add: setCursor_def Let_def onMouseLeave_def leavePlot_def)


lemma renderRows_closure:
  "renderTooltipCloses (snd (renderRows ut opts u t x st s)) =
     (case markActive ut opts (l_rows st) (l_rowYs st) (cursorValue u) (l_i st) of
        Inl e \<Rightarrow> renderTooltipCloses s
      | Inr rows \<Rightarrow>
          if overSet s
          then RenderClosure (sortRows opts rows) (availableLines (u_series u)) x
                 (l_sum st) (mkAnchor u t)
          else renderTooltipCloses s)"
  by (simp add: renderRows_def Let_def split: sum.splits)


lemma setCursor_closure:
  "renderTooltipCloses (snd (setCursor ut cfg opts u s)) = renderTooltipCloses s
   \<or> (\<exists>data idx t st rows.
         u_data u = Some data \<and> u_idx u = Some idx \<and> u_top u = Some t
         \<and> buildRows ut cfg opts data (u_series u) idx loopStart = Inr st
         \<and> markActive ut opts (l_rows st) (l_rowYs st) (cursorValue u) (l_i st) = Inr rows
         \<and> renderTooltipCloses (snd (setCursor ut cfg opts u s))
             = RenderClosure (sortRows opts rows) (availableLines (u_series u))
                 (js_nth (hd data) Undefined (int idx)) (l_sum st) (mkAnchor u t))"
  (is "?Q (setCursor ut cfg opts u s)")
proof (rule setCursor_shape [where P = ?Q])
  fix e show "?Q (e, leavePlot opts u s)" by simp
next
  fix data idx t st
  show "?Q (None, onMouseLeave opts (leavePlot opts u s))" by simp
next
  fix data idx t st
  assume h: "u_data u = Some data" "u_idx u = Some idx" "u_top u = Some t"
    "buildRows ut cfg opts data (u_series u) idx loopStart = Inr st"
  show "?Q (renderRows ut opts u t (js_nth (hd data) Undefined (int idx)) st
              (onMouseEnter opts (leavePlot opts u s)))"
  proof (cases "markActive ut opts (l_rows st) (l_rowYs st) (cursorValue u) (l_i st)")
    case (Inl e)
    then show ?thesis by (simp add: renderRows_closure)
  next
    case (Inr rows)
    then show ?thesis using h by (cases "overSet s") (simp_all add: renderRows_closure)
  qed
qed

lemma setCursor_keeps [simp]:
  "clickStartedX (snd (setCursor ut cfg opts u s)) = clickStartedX s"
  "overSet (snd (setCursor ut cfg opts u s)) = overSet s"
  "overListeners (snd (setCursor ut cfg opts u s)) = overListeners s"
proof -
  have e: "clickStartedX (emit opts a x) = clickStartedX x" "overSet (emit opts a x) = overSet x"
    "overListeners (emit opts a x) = overListeners x" for a x
    by (simp_all add: emit_def)
  have sh: "clickStartedX (show_fn opts x) = clickStartedX x" "overSet (show_fn opts x) = overSet x"
    "overListeners (show_fn opts x) = overListeners x" for x
    by (simp_all add: show_fn_def Let_def e)
  have hd: "clickStartedX (hide opts x) = clickStartedX x" "overSet (hide opts x) = overSet x"
    "overListeners (hide opts x) = overListeners x" for x
    by (simp_all add: hide_def Let_def e)
  have cr: "clickStartedX (callRenderTooltipCloses opts x) = clickStartedX x"
    "overSet (callRenderTooltipCloses opts x) = overSet x"
    "overListeners (callRenderTooltipCloses opts x) = overListeners x" for x
    by (simp_all add: callRenderTooltipCloses_def e split: closure.splits)
  have lp: "clickStartedX (leavePlot opts u x) = clickStartedX x" "overSet (leavePlot opts u x) = overSet x"
    "overListeners (leavePlot opts u x) = overListeners x" for x
    by (simp_all add: leavePlot_def hd)
  have rr: "clickStartedX (snd (renderRows ut opts u t v st x)) = clickStartedX x"
    "overSet (snd (renderRows ut opts u t v st x)) = overSet x"
    "overListeners (snd (renderRows ut opts u t v st x)) = overListeners x" for t v st x
    by (simp_all add: renderRows_def Let_def cr split: sum.splits)
  show "clickStartedX (snd (setCursor ut cfg opts u s)) = clickStartedX s"
    by (rule setCursor_shape [where P = "\<lambda>r. clickStartedX (snd r) = clickStartedX s"])
      (simp_all add: lp rr sh hd onMouseLeave_def onMouseEnter_def)
  show "overSet (snd (setCursor ut cfg opts u s)) = overSet s"
    by (rule setCursor_shape [where P = "\<lambda>r. overSet (snd r) = overSet s"])
      (simp_all add: lp rr sh hd onMouseLeave_def onMouseEnter_def)
  show "overListeners (snd (setCursor ut cfg opts u s)) = overListeners s"
    by (rule setCursor_shape [where P = "\<lambda>r. overListeners (snd r) = overListeners s"])
      (simp_all add: lp rr sh hd onMouseLeave_def onMouseEnter_def)
qed





lemma setCursor_tracking_none:
  assumes "tracking opts = TrackingNone"
  shows "(rendered (snd (setCursor ut cfg opts u s)) = rendered s
          \<or> (\<exists>rc. rendered (snd (setCursor ut cfg opts u s)) = rendered s @ [rc]
                   \<and> list_all (\<lambda>r. \<not> active r) (rc_rows rc)))
       \<and> (renderTooltipCloses (snd (setCursor ut cfg opts u s)) = renderTooltipCloses s
          \<or> (\<exists>rows l x' sm a.
                renderTooltipCloses (snd (setCursor ut cfg opts u s)) = RenderClosure rows l x' sm a
                \<and> list_all (\<lambda>r. \<not> active r) rows))"
  (is "?Q (setCursor ut cfg opts u s)")
proof (rule setCursor_shape [where P = ?Q])
  fix e show "?Q (e, leavePlot opts u s)" by simp
next
  show "?Q (None, onMouseLeave opts (leavePlot opts u s))" by simp
next
  fix data idx t st
  assume b: "buildRows ut cfg opts data (u_series u) idx loopStart = Inr st"
  show "?Q (renderRows ut opts u t (js_nth (hd data) Undefined (int idx)) st
              (onMouseEnter opts (leavePlot opts u s)))"
    using renderRows_tracking_none [OF assms buildRows_start_inactive [OF b],
        of ut u t "js_nth (hd data) Undefined (int idx)" "onMouseEnter opts (leavePlot opts u s)"]
    by simp
qed

lemma hide_not_visible [simp]: "visible (hide opts s) = False"
  by (simp add: hide_def Let_def)



lemma renderRows_ignores_ys:
  "renderRows ut opts u t x (st\<lparr>l_ys := ys'\<rparr>) s = renderRows ut opts u t x st s"
  by (simp add: renderRows_def split: sum.splits)

subsection \<open>The examples, evaluated\<close>

lemma examplePinned_eq:
  "examplePinned =
     \<lparr>pinned = True, clickStartedX = Some 5, visible = True, mounted = True,
      overlay_display = DisplayBlock, emitted = [Init, Mount, Pin, Show],
      renderTooltipCloses = Noop, rendered = [], overSet = True, overListeners = True,
      docListeners = True, pinnedClass = True, pointsHolders = 1, overlayInDom = True\<rparr>"
  by (simp add: examplePinned_def run_def step_def init_hook_def created_def onMouseDown_def
      onMouseUp_def truthy_def pin_def show_fn_def callRenderTooltipCloses_def
      exampleOpts_def defaults_def emit_def Let_def)

lemma example_build:
  "buildRows exampleUtils exampleConfig exampleOpts [[Num 0], [Num v]]
     [exampleSeries ''x'' True None, exampleSeries ''a'' True None] 0 loopStart
   = Inr \<lparr>l_rows = [\<lparr>row_name = ''a'', originalValue = Num v, row_value = [], row_y = Num v,
                      row_color = ''red'', active = False, normalized = None\<rparr>],
           l_ys = [Num v], l_rowYs = [Num v], l_sum = v, l_i = 2\<rparr>"
  by (simp add: buildRows.simps loopStart_def exampleSeries_def bookkeep_def pushRow_def skipRow_def
      valueAt_def dValueAt_def findValue_def defaultNull_def js_nth_def yValueAt_def realYAt_def rowData_def
      exampleConfig_def exampleOpts_def defaults_def Let_def)

lemma example_build_hidden:
  "buildRows exampleUtils exampleConfig opts [[Num 0], [Num 5]]
     [exampleSeries ''x'' True None, exampleSeries ''a'' False None] 0 loopStart
   = Inr (loopStart\<lparr>l_i := 2\<rparr>)"
  by (simp add: buildRows.simps loopStart_def exampleSeries_def)

lemma exampleCursor_fields [simp]:
  "u_left (exampleCursor data series) = 10"
  "u_top (exampleCursor data series) = Some 10"
  "u_idx (exampleCursor data series) = Some 0"
  "u_data (exampleCursor data series) = Some data"
  "u_series (exampleCursor data series) = series"
  "inViewPort (exampleCursor data series)"
  "cursorValue (exampleCursor data series) = 15"
  "mkAnchor (exampleCursor data series) 10 = \<lparr>a_left = 34, a_top = - 14\<rparr>"
  by (simp_all add: exampleCursor_def mkAnchor_def ANCHOR_Y_OFFSET_def Let_def)

lemma example_markActive:
  "markActive exampleUtils exampleOpts rows rowYs cv i = Inr rows"
  by (simp add: markActive_def exampleUtils_def exampleOpts_def defaults_def)

lemma example_sortRows: "sortRows exampleOpts rows = rows"
  by (simp add: sortRows_def exampleOpts_def defaults_def)

lemma example_cursor:
  "overSet s \<Longrightarrow> setCursor exampleUtils exampleConfig exampleOpts
     (exampleCursor [[Num 0], [Num v]] [exampleSeries ''x'' True None, exampleSeries ''a'' True None])
     s
   = (let s3 = (show_fn exampleOpts s)\<lparr>renderTooltipCloses :=
        RenderClosure [\<lparr>row_name = ''a'', originalValue = Num v, row_value = [], row_y = Num v,
                        row_color = ''red'', active = False, normalized = None\<rparr>]
          1 (Num 0) v \<lparr>a_left = 34, a_top = - 14\<rparr>\<rparr>
      in if pinned s then (None, s3) else (None, callRenderTooltipCloses exampleOpts s3))"
  apply (simp add: setCursor_def example_build leavePlot_def onMouseEnter_def renderRows_def
      example_markActive example_sortRows Let_def)
  apply (simp add: availableLines_def exampleSeries_def js_nth_def)
  done

lemma example_cursor_hidden:
  "setCursor exampleUtils exampleConfig exampleOpts
     (exampleCursor [[Num 0], [Num 5]] [exampleSeries ''x'' True None, exampleSeries ''a'' False None])
     s
   = (None, onMouseLeave exampleOpts s)"
  apply (simp add: setCursor_def example_build_hidden leavePlot_def Let_def)
  apply (simp add: loopStart_def)
  done

lemma example_build_no_tracking:
  "buildRows exampleUtils exampleConfig exampleOptsNoTracking [[Num 0], [Num v]]
     [exampleSeries ''x'' True None, exampleSeries ''a'' True None] 0 loopStart
   = Inr \<lparr>l_rows = [\<lparr>row_name = ''a'', originalValue = Num v, row_value = [], row_y = Num v,
                      row_color = ''red'', active = False, normalized = None\<rparr>],
           l_ys = [Num v], l_rowYs = [Num v], l_sum = v, l_i = 2\<rparr>"
  by (simp add: buildRows.simps loopStart_def exampleSeries_def bookkeep_def pushRow_def skipRow_def
      valueAt_def dValueAt_def findValue_def defaultNull_def js_nth_def yValueAt_def realYAt_def rowData_def
      exampleConfig_def exampleOptsNoTracking_def exampleOpts_def defaults_def Let_def)

lemma example_build_skipped:
  "buildRows ut exampleConfig exampleOpts skippedData skippedSeries 0 loopStart = Inr skippedLocals"
  by (simp add: buildRows.simps loopStart_def exampleSeries_def bookkeep_def pushRow_def skipRow_def
      valueAt_def dValueAt_def findValue_def defaultNull_def js_nth_def yValueAt_def realYAt_def rowData_def
      exampleConfig_def exampleOpts_def defaults_def skippedData_def skippedSeries_def
      skippedLocals_def Let_def)

subsection \<open>Mounted and pinned\<close>

text \<open>
  Claim C2, as stated, fails. After the \<^verbatim>\<open>init\<close> hook, a click that pins the tooltip
  and the \<^verbatim>\<open>destroy\<close> hook, \<open>pinned\<close> is true and \<open>mounted\<close> is false:
  \<^verbatim>\<open>destroy\<close> clears \<open>mounted\<close> and does not touch \<open>pinned\<close>.
\<close>

theorem pinned_survives_destroy:
  "pinned (run exampleUtils exampleConfig exampleOpts
             [HookInit, MouseDown 5, MouseUp 5, HookDestroy] (created exampleOpts))
   \<and> \<not> mounted (run exampleUtils exampleConfig exampleOpts
             [HookInit, MouseDown 5, MouseUp 5, HookDestroy] (created exampleOpts))"
  by (simp add: run_def step_def init_hook_def created_def onMouseDown_def onMouseUp_def truthy_def
      pin_def destroy_def exampleOpts_def defaults_def emit_def Let_def)

text \<open>
  Claim C2, amended. In every state reached from the constructed plugin by a sequence of
  calls of show, hide and pin, pointer events, document clicks and cursor updates without
  a \<^verbatim>\<open>destroy\<close>, \<open>mounted\<close> is true, so \<open>pinned\<close> implies \<open>mounted\<close> there.
  \<^verbatim>\<open>destroy\<close> leaves \<open>pinned\<close> as it was and (once \<^verbatim>\<open>over\<close> is set) clears
  \<open>mounted\<close>.
\<close>

theorem mounted_until_destroy:
  "(HookDestroy \<notin> set evs \<longrightarrow>
      mounted (run ut cfg opts evs (created opts))
      \<and> (pinned (run ut cfg opts evs (created opts))
           \<longrightarrow> mounted (run ut cfg opts evs (created opts))))
   \<and> pinned (snd (destroy opts s)) = pinned s
   \<and> (overSet s \<longrightarrow> \<not> mounted (snd (destroy opts s)))"
  by (simp add: run_mounted created_mounted destroy_fields)

theorem mounted_until_destroy_witness:
  "HookDestroy \<notin> set [HookInit, MouseDown 5, MouseUp 5]
   \<and> mounted examplePinned \<and> pinned examplePinned \<and> overSet examplePinned
   \<and> pinned (snd (destroy exampleOpts examplePinned))
   \<and> \<not> mounted (snd (destroy exampleOpts examplePinned))"
  using mounted_until_destroy [of "[HookInit, MouseDown 5, MouseUp 5]" exampleUtils exampleConfig
      exampleOpts examplePinned]
  by (simp add: examplePinned_def [symmetric]) (simp add: examplePinned_eq)

subsection \<open>Cursor updates with no row\<close>

text \<open>
  Claim C6, as stated, fails. On a pinned, visible tooltip, a cursor update over data whose
  only series is not shown builds no row, and the update changes nothing: the tooltip
  stays visible and displayed and no notification is emitted, whereas \<^verbatim>\<open>hide()\<close>
  would clear \<open>visible\<close>.
\<close>

theorem pinned_empty_rows_no_hide:
  "buildRows exampleUtils exampleConfig exampleOpts [[Num 0], [Num 5]]
     [exampleSeries ''x'' True None, exampleSeries ''a'' False None] 0 loopStart
     = Inr (loopStart\<lparr>l_i := 2\<rparr>)
   \<and> l_rows (loopStart\<lparr>l_i := 2\<rparr>) = []
   \<and> pinned examplePinned
   \<and> snd (setCursor exampleUtils exampleConfig exampleOpts hiddenCursor examplePinned) = examplePinned
   \<and> visible examplePinned
   \<and> overlay_display examplePinned = DisplayBlock
   \<and> emitted examplePinned = [Init, Mount, Pin, Show]
   \<and> \<not> visible (hide exampleOpts examplePinned)"
  apply (simp add: example_build_hidden hiddenCursor_def example_cursor_hidden)
  apply (simp add: loopStart_def onMouseLeave_def examplePinned_eq)
  done

text \<open>
  Claim C6, amended. A cursor update that reaches the loop and builds no row calls
  \<^verbatim>\<open>onMouseLeave\<close>: the state it leaves is the state \<^verbatim>\<open>hide()\<close> gives when the
  tooltip is not pinned, and the state it found when the tooltip is pinned. In both cases
  nothing is rendered and \<^verbatim>\<open>renderTooltipCloses\<close> is not replaced.
\<close>

theorem empty_rows_leave:
  assumes "u_data u = Some data" and "u_idx u = Some idx" and "u_top u = Some t"
    and "inViewPort u" and "data \<noteq> []"
    and "buildRows ut cfg opts data (u_series u) idx loopStart = Inr st"
    and "l_rows st = []"
  shows "setCursor ut cfg opts u s
           = (None, if pinned s then s else hide opts (leavePlot opts u s))
       \<and> rendered (snd (setCursor ut cfg opts u s)) = rendered s
       \<and> renderTooltipCloses (snd (setCursor ut cfg opts u s)) = renderTooltipCloses s"
  using assms by (rule empty_rows)

theorem empty_rows_leave_witness:
  "u_data hiddenCursor = Some [[Num 0], [Num 5]] \<and> u_idx hiddenCursor = Some 0
   \<and> u_top hiddenCursor = Some 10 \<and> inViewPort hiddenCursor
   \<and> buildRows exampleUtils exampleConfig exampleOpts [[Num 0], [Num 5]] (u_series hiddenCursor) 0
         loopStart = Inr (loopStart\<lparr>l_i := 2\<rparr>)
   \<and> l_rows (loopStart\<lparr>l_i := 2\<rparr>) = []
   \<and> setCursor exampleUtils exampleConfig exampleOpts hiddenCursor
         (show_fn exampleOpts (init_hook (created exampleOpts)))
       = (None, hide exampleOpts (show_fn exampleOpts (init_hook (created exampleOpts))))
   \<and> \<not> visible (snd (setCursor exampleUtils exampleConfig exampleOpts hiddenCursor
         (show_fn exampleOpts (init_hook (created exampleOpts)))))"
proof -
  have h: "u_data hiddenCursor = Some [[Num 0], [Num 5]]" "u_idx hiddenCursor = Some 0"
    "u_top hiddenCursor = Some 10" "inViewPort hiddenCursor" "[[Num 0], [Num 5]] \<noteq> ([] :: cell list list)"
    "buildRows exampleUtils exampleConfig exampleOpts [[Num 0], [Num 5]] (u_series hiddenCursor) 0
         loopStart = Inr (loopStart\<lparr>l_i := 2\<rparr>)"
    "l_rows (loopStart\<lparr>l_i := 2\<rparr>) = []"
    by (simp_all add: hiddenCursor_def example_build_hidden) (simp add: loopStart_def)
  have np: "\<not> pinned (show_fn exampleOpts (init_hook (created exampleOpts)))"
    by (simp add: init_hook_def created_def)
  have lp: "leavePlot exampleOpts hiddenCursor (show_fn exampleOpts (init_hook (created exampleOpts)))
            = show_fn exampleOpts (init_hook (created exampleOpts))"
    by (simp add: leavePlot_def hiddenCursor_def)
  show ?thesis
    using empty_rows_leave [OF h, of "show_fn exampleOpts (init_hook (created exampleOpts))"] h np lp
    by simp
qed

subsection \<open>What a cursor update assigns and what a click renders\<close>

lemma setCursor_success:
  assumes "u_data u = Some data" and "u_idx u = Some idx" and "u_top u = Some t"
    and "inViewPort u" and "data \<noteq> []"
    and "buildRows ut cfg opts data (u_series u) idx loopStart = Inr st"
    and "l_rows st \<noteq> []"
    and "markActive ut opts (l_rows st) (l_rowYs st) (cursorValue u) (l_i st) = Inr rows"
    and "overSet s"
  shows "setCursor ut cfg opts u s =
     (if pinned s
      then (None, (show_fn opts (leavePlot opts u s))\<lparr>renderTooltipCloses :=
              RenderClosure (sortRows opts rows) (availableLines (u_series u))
                (js_nth (hd data) Undefined (int idx)) (l_sum st) (mkAnchor u t)\<rparr>)
      else (None, callRenderTooltipCloses opts
              ((show_fn opts (leavePlot opts u s))\<lparr>renderTooltipCloses :=
                 RenderClosure (sortRows opts rows) (availableLines (u_series u))
                   (js_nth (hd data) Undefined (int idx)) (l_sum st) (mkAnchor u t)\<rparr>)))"
  using assms by (simp add: setCursor_def renderRows_def onMouseEnter_def Let_def)

lemma setCursor_mark_fails:
  assumes "u_data u = Some data" and "u_idx u = Some idx" and "u_top u = Some t"
    and "inViewPort u" and "data \<noteq> []"
    and "buildRows ut cfg opts data (u_series u) idx loopStart = Inr st"
    and "l_rows st \<noteq> []"
    and "markActive ut opts (l_rows st) (l_rowYs st) (cursorValue u) (l_i st) = Inl e"
  shows "setCursor ut cfg opts u s = (Some e, show_fn opts (leavePlot opts u s))"
  using assms by (simp add: setCursor_def renderRows_def onMouseEnter_def Let_def)







lemma markActive_selects:
  assumes "highlightLines opts" and "tracking opts \<noteq> TrackingNone"
  shows "markActive ut opts rows rowYs cv i =
     (case (if tracking opts = Area then findInRange ut rowYs cv False
            else findSticky ut rowYs cv) of
        None \<Rightarrow> Inr rows
      | Some k \<Rightarrow>
          if 0 \<le> k \<and> k < int (length rows)
          then Inr (rows[nat k := (rows ! nat k)\<lparr>active := True\<rparr>])
          else Inl TypeError)"
  using assms by (cases "tracking opts") (simp_all add: markActive_def)

lemma setCursor_selects:
  assumes "buildRows ut cfg opts data (u_series u) idx loopStart = Inr st"
    and "u_data u = Some data" and "u_idx u = Some idx" and "u_top u = Some t"
    and "inViewPort u" and "data \<noteq> []" and "l_rows st \<noteq> []" and "overSet s"
    and "highlightLines opts" and "tracking opts \<noteq> TrackingNone"
  shows "case (if tracking opts = Area then findInRange ut (l_rowYs st) (cursorValue u) False
               else findSticky ut (l_rowYs st) (cursorValue u)) of
           None \<Rightarrow>
             fst (setCursor ut cfg opts u s) = None
             \<and> renderTooltipCloses (snd (setCursor ut cfg opts u s))
                 = RenderClosure (sortRows opts (l_rows st)) (availableLines (u_series u))
                     (js_nth (hd data) Undefined (int idx)) (l_sum st) (mkAnchor u t)
         | Some k \<Rightarrow>
             if 0 \<le> k \<and> k < int (length (l_rows st))
             then fst (setCursor ut cfg opts u s) = None
                  \<and> renderTooltipCloses (snd (setCursor ut cfg opts u s))
                      = RenderClosure
                          (sortRows opts ((l_rows st)[nat k := (l_rows st ! nat k)\<lparr>active := True\<rparr>]))
                          (availableLines (u_series u))
                          (js_nth (hd data) Undefined (int idx)) (l_sum st) (mkAnchor u t)
             else fst (setCursor ut cfg opts u s) = Some TypeError
                  \<and> renderTooltipCloses (snd (setCursor ut cfg opts u s))
                      = renderTooltipCloses s"
proof -
  let ?sel = "if tracking opts = Area then findInRange ut (l_rowYs st) (cursorValue u) False
              else findSticky ut (l_rowYs st) (cursorValue u)"
  note m = markActive_selects [OF assms(9,10), of ut "l_rows st" "l_rowYs st" "cursorValue u" "l_i st"]
  note p = assms(2-6)
  show ?thesis
  proof (cases ?sel)
    case None
    with m have "markActive ut opts (l_rows st) (l_rowYs st) (cursorValue u) (l_i st) = Inr (l_rows st)"
      by simp
    from setCursor_success [OF p assms(1,7) this assms(8)] None show ?thesis by simp
  next
    case (Some k)
    show ?thesis
    proof (cases "0 \<le> k \<and> k < int (length (l_rows st))")
      case True
      with m Some
      have "markActive ut opts (l_rows st) (l_rowYs st) (cursorValue u) (l_i st)
              = Inr ((l_rows st)[nat k := (l_rows st ! nat k)\<lparr>active := True\<rparr>])"
        by simp
      from setCursor_success [OF p assms(1,7) this assms(8)] Some True show ?thesis by simp
    next
      case False
      with m Some
      have "markActive ut opts (l_rows st) (l_rowYs st) (cursorValue u) (l_i st) = Inl TypeError"
        by simp
      from setCursor_mark_fails [OF p assms(1,7) this, of s] Some False show ?thesis by simp
    qed
  qed
qed

lemma skippedCursor_fields [simp]:
  "u_data (skippedCursor cv) = Some skippedData"
  "u_idx (skippedCursor cv) = Some 0"
  "u_top (skippedCursor cv) = Some 10"
  "inViewPort (skippedCursor cv)"
  "u_series (skippedCursor cv) = skippedSeries"
  "cursorValue (skippedCursor cv) = cv"
  "mkAnchor (skippedCursor cv) 10 = \<lparr>a_left = 34, a_top = - 14\<rparr>"
  by (simp_all add: skippedCursor_def exampleCursor_def mkAnchor_def ANCHOR_Y_OFFSET_def Let_def)

subsection \<open>Rendering while pinned\<close>



subsection \<open>Tracking switched off\<close>

text \<open>
  Claim C3, what the code does. Let the tracking policy be neither Sticky nor Area, and
  let a cursor update build at least one row. No row that the loop has built is marked
  active. With \<^verbatim>\<open>highlightLines\<close> on (the default), \<^verbatim>\<open>activeIndex\<close> keeps its
  initial value \<^verbatim>\<open>i - 1\<close>, which is never an index of \<^verbatim>\<open>rows\<close>, and
  \<^verbatim>\<open>rows[activeIndex].active = true\<close> throws a TypeError: the handler has shown the
  tooltip, and it renders nothing and does not assign the closure. Only with
  \<^verbatim>\<open>highlightLines\<close> off does the update go through, with the rows unmarked.
\<close>

theorem tracking_none_cursor_update:
  assumes "tracking opts = TrackingNone"
    and "u_data u = Some data" and "u_idx u = Some idx" and "u_top u = Some t"
    and "inViewPort u" and "data \<noteq> []"
    and "buildRows ut cfg opts data (u_series u) idx loopStart = Inr st"
    and "l_rows st \<noteq> []"
  shows "(highlightLines opts \<longrightarrow>
            setCursor ut cfg opts u s = (Some TypeError, show_fn opts (leavePlot opts u s))
            \<and> rendered (snd (setCursor ut cfg opts u s)) = rendered s
            \<and> renderTooltipCloses (snd (setCursor ut cfg opts u s)) = renderTooltipCloses s)
       \<and> (\<not> highlightLines opts \<and> overSet s \<longrightarrow>
            setCursor ut cfg opts u s =
              (if pinned s
               then (None, (show_fn opts (leavePlot opts u s))\<lparr>renderTooltipCloses :=
                       RenderClosure (sortRows opts (l_rows st)) (availableLines (u_series u))
                         (js_nth (hd data) Undefined (int idx)) (l_sum st) (mkAnchor u t)\<rparr>)
               else (None, callRenderTooltipCloses opts
                       ((show_fn opts (leavePlot opts u s))\<lparr>renderTooltipCloses :=
                          RenderClosure (sortRows opts (l_rows st)) (availableLines (u_series u))
                            (js_nth (hd data) Undefined (int idx)) (l_sum st) (mkAnchor u t)\<rparr>))))
       \<and> list_all (\<lambda>r. \<not> active r) (l_rows st)"
proof -
  have m: "markActive ut opts (l_rows st) (l_rowYs st) (cursorValue u) (l_i st)
           = (if highlightLines opts then Inl TypeError else Inr (l_rows st))"
    by (rule markActive_tracking_none [OF assms(1) buildRows_start_inactive(2) [OF assms(7)]])
  have a: "highlightLines opts \<Longrightarrow>
            setCursor ut cfg opts u s = (Some TypeError, show_fn opts (leavePlot opts u s))"
    using setCursor_mark_fails [OF assms(2-8), of TypeError s] m by simp
  have b: "\<not> highlightLines opts \<Longrightarrow> overSet s \<Longrightarrow>
            setCursor ut cfg opts u s =
              (if pinned s
               then (None, (show_fn opts (leavePlot opts u s))\<lparr>renderTooltipCloses :=
                       RenderClosure (sortRows opts (l_rows st)) (availableLines (u_series u))
                         (js_nth (hd data) Undefined (int idx)) (l_sum st) (mkAnchor u t)\<rparr>)
               else (None, callRenderTooltipCloses opts
                       ((show_fn opts (leavePlot opts u s))\<lparr>renderTooltipCloses :=
                          RenderClosure (sortRows opts (l_rows st)) (availableLines (u_series u))
                            (js_nth (hd data) Undefined (int idx)) (l_sum st) (mkAnchor u t)\<rparr>)))"
    using setCursor_success [OF assms(2-8), of "l_rows st" s] m by simp
  have c: "list_all (\<lambda>r. \<not> active r) (l_rows st)"
    by (rule buildRows_start_inactive(1) [OF assms(7)])
  show ?thesis using a b c by simp
qed

theorem tracking_none_cursor_update_witness:
  "tracking exampleOptsNoTracking = TrackingNone \<and> highlightLines exampleOptsNoTracking
   \<and> u_data (cursorOver 10) = Some [[Num 0], [Num 10]] \<and> u_idx (cursorOver 10) = Some 0
   \<and> u_top (cursorOver 10) = Some 10 \<and> inViewPort (cursorOver 10)
   \<and> buildRows exampleUtils exampleConfig exampleOptsNoTracking [[Num 0], [Num 10]]
        (u_series (cursorOver 10)) 0 loopStart
       = Inr \<lparr>l_rows = [\<lparr>row_name = ''a'', originalValue = Num 10, row_value = [],
                         row_y = Num 10, row_color = ''red'', active = False,
                         normalized = None\<rparr>],
               l_ys = [Num 10], l_rowYs = [Num 10], l_sum = 10, l_i = 2\<rparr>
   \<and> setCursor exampleUtils exampleConfig exampleOptsNoTracking (cursorOver 10)
         (init_hook (created exampleOptsNoTracking))
       = (Some TypeError, show_fn exampleOptsNoTracking (init_hook (created exampleOptsNoTracking)))
   \<and> rendered (snd (setCursor exampleUtils exampleConfig exampleOptsNoTracking (cursorOver 10)
         (init_hook (created exampleOptsNoTracking)))) = []
   \<and> renderTooltipCloses (snd (setCursor exampleUtils exampleConfig exampleOptsNoTracking
         (cursorOver 10) (init_hook (created exampleOptsNoTracking)))) = Noop"
proof -
  let ?st = "\<lparr>l_rows = [\<lparr>row_name = ''a'', originalValue = Num 10, row_value = [],
                         row_y = Num 10, row_color = ''red'', active = False,
                         normalized = None\<rparr>],
               l_ys = [Num 10], l_rowYs = [Num 10], l_sum = 10, l_i = 2\<rparr>"
  let ?s = "init_hook (created exampleOptsNoTracking)"
  have o: "tracking exampleOptsNoTracking = TrackingNone" "highlightLines exampleOptsNoTracking"
    by (simp_all add: exampleOptsNoTracking_def exampleOpts_def defaults_def)
  have u: "u_data (cursorOver 10) = Some [[Num 0], [Num 10]]" "u_idx (cursorOver 10) = Some 0"
    "u_top (cursorOver 10) = Some 10" "inViewPort (cursorOver 10)"
    "[[Num 0], [Num 10]] \<noteq> ([] :: cell list list)"
    and us: "u_series (cursorOver 10) = [exampleSeries ''x'' True None, exampleSeries ''a'' True None]"
    and lp: "leavePlot exampleOptsNoTracking (cursorOver 10) ?s = ?s"
    by (simp_all add: cursorOver_def leavePlot_def)
  have b: "buildRows exampleUtils exampleConfig exampleOptsNoTracking [[Num 0], [Num 10]]
        (u_series (cursorOver 10)) 0 loopStart = Inr ?st"
    unfolding us by (rule example_build_no_tracking)
  have ne: "l_rows ?st \<noteq> []" by simp
  have s0: "rendered ?s = []" "renderTooltipCloses ?s = Noop"
    by (simp_all add: init_hook_def created_def)
  show ?thesis
    using tracking_none_cursor_update [OF o(1) u b ne, of ?s] o u(1-4) b lp s0
    by simp
qed

subsection \<open>The sequences ys and rowYs\<close>

text \<open>
  Claim C9, as stated, fails. Series \<open>b\<close> is shown and opts out of the tooltip, so its
  row is skipped. Its y-equivalent 20 is pushed onto \<^verbatim>\<open>ys\<close>, but the sequence that the
  selection is applied to is \<^verbatim>\<open>rowYs\<close>, which holds the value of series \<open>a\<close> only:
  a selector that looks for the cursor value 20 in the sequence it is given finds nothing,
  where on \<^verbatim>\<open>ys\<close> it would have marked a row.
\<close>

theorem skipped_series_not_in_rowYs:
  "s_show (skippedSeries ! 2)
   \<and> skipRow spyUtils exampleConfig exampleOpts skippedData skippedSeries 0 2
   \<and> yValueAt spyUtils exampleConfig skippedData skippedSeries 0 2 = Num 20
   \<and> buildRows spyUtils exampleConfig exampleOpts skippedData skippedSeries 0 loopStart
       = Inr skippedLocals
   \<and> l_ys skippedLocals = [Num 10, Num 20]
   \<and> l_rowYs skippedLocals = [Num 10]
   \<and> markActive spyUtils exampleOpts (l_rows skippedLocals) (l_rowYs skippedLocals) 20
         (l_i skippedLocals) = Inr (l_rows skippedLocals)
   \<and> markActive spyUtils exampleOpts (l_rows skippedLocals) (l_ys skippedLocals) 20
         (l_i skippedLocals) \<noteq> Inr (l_rows skippedLocals)"
  apply (simp add: example_build_skipped)
  apply (simp add: skippedSeries_def skippedData_def skippedLocals_def exampleSeries_def skipRow_def
      yValueAt_def realYAt_def js_nth_def markActive_def spyUtils_def exampleUtils_def
      exampleOpts_def defaults_def Let_def)
  done

text \<open>
  Claim C9, amended. After the loop, \<^verbatim>\<open>ys\<close> holds the y-equivalent of every shown
  series, skipped or not, in order; \<^verbatim>\<open>rowYs\<close> holds the plotted value
  \<^verbatim>\<open>data[i][idx]\<close> of exactly the shown series whose row is emitted, one entry per
  row, in the order of \<^verbatim>\<open>rows\<close>. The statements after the loop do not depend on
  \<^verbatim>\<open>ys\<close>. When highlighting is on and the policy is Area or Sticky, the index that
  the cursor update marks is the one that \<^verbatim>\<open>findInRange\<close>, respectively
  \<^verbatim>\<open>findSticky\<close>, returns for \<^verbatim>\<open>rowYs\<close> and the cursor value: with no index no
  row is marked, with an index of \<^verbatim>\<open>rows\<close> that row is marked in the closure the
  update assigns, and with any other index the update throws and assigns nothing.
\<close>

theorem ys_and_rowYs:
  assumes "buildRows ut cfg opts data (u_series u) idx loopStart = Inr st"
  shows
    "(let series = u_series u;
          shown = filter (\<lambda>j. s_show (series ! j)) [1..<length series];
          emitted = filter (\<lambda>j. s_show (series ! j)
                                \<and> \<not> skipRow ut cfg opts data series idx j) [1..<length series];
          rowYs = map (realYAt data idx) emitted;
          rows = map (rowData ut cfg opts data series idx) emitted
      in l_ys st = map (yValueAt ut cfg data series idx) shown
         \<and> l_rowYs st = rowYs
         \<and> l_rows st = rows
         \<and> renderRows ut opts u t x (st\<lparr>l_ys := ys'\<rparr>) s = renderRows ut opts u t x st s
         \<and> (u_data u = Some data \<and> u_idx u = Some idx \<and> u_top u = Some t \<and> inViewPort u
              \<and> data \<noteq> [] \<and> rows \<noteq> [] \<and> overSet s
              \<and> highlightLines opts \<and> tracking opts \<noteq> TrackingNone \<longrightarrow>
              (case (if tracking opts = Area then findInRange ut rowYs (cursorValue u) False
                     else findSticky ut rowYs (cursorValue u)) of
                 None \<Rightarrow>
                   fst (setCursor ut cfg opts u s) = None
                   \<and> renderTooltipCloses (snd (setCursor ut cfg opts u s))
                       = RenderClosure (sortRows opts rows) (availableLines series)
                           (js_nth (hd data) Undefined (int idx)) (l_sum st) (mkAnchor u t)
               | Some k \<Rightarrow>
                   if 0 \<le> k \<and> k < int (length rows)
                   then fst (setCursor ut cfg opts u s) = None
                        \<and> renderTooltipCloses (snd (setCursor ut cfg opts u s))
                            = RenderClosure
                                (sortRows opts (rows[nat k := (rows ! nat k)\<lparr>active := True\<rparr>]))
                                (availableLines series)
                                (js_nth (hd data) Undefined (int idx)) (l_sum st) (mkAnchor u t)
                   else fst (setCursor ut cfg opts u s) = Some TypeError
                        \<and> renderTooltipCloses (snd (setCursor ut cfg opts u s))
                            = renderTooltipCloses s)))"
proof -
  let ?series = "u_series u"
  have seqs: "l_ys st = map (yValueAt ut cfg data ?series idx)
                          (filter (\<lambda>j. s_show (?series ! j)) [1..<length ?series])"
    "l_rowYs st = map (realYAt data idx)
        (filter (\<lambda>j. s_show (?series ! j) \<and> \<not> skipRow ut cfg opts data ?series idx j)
           [1..<length ?series])"
    "l_rows st = map (rowData ut cfg opts data ?series idx)
        (filter (\<lambda>j. s_show (?series ! j) \<and> \<not> skipRow ut cfg opts data ?series idx j)
           [1..<length ?series])"
    using buildRows_sequences [OF assms] by (simp_all add: loopStart_def)
  have ind: "renderRows ut opts u t x (st\<lparr>l_ys := ys'\<rparr>) s = renderRows ut opts u t x st s"
    by (rule renderRows_ignores_ys)
  show ?thesis
    unfolding Let_def seqs(2) [symmetric] seqs(3) [symmetric]
    using seqs(1) ind setCursor_selects [OF assms, where t = t and s = s]
    by blast
qed

theorem ys_and_rowYs_witness:
  "buildRows spyUtils exampleConfig exampleOpts skippedData (u_series (skippedCursor 10)) 0
     loopStart = Inr skippedLocals
   \<and> u_data (skippedCursor 10) = Some skippedData \<and> u_idx (skippedCursor 10) = Some 0
   \<and> u_top (skippedCursor 10) = Some 10 \<and> inViewPort (skippedCursor 10)
   \<and> overSet examplePinned \<and> highlightLines exampleOpts \<and> tracking exampleOpts = Sticky
   \<and> l_ys skippedLocals = [Num 10, Num 20]
   \<and> l_rowYs skippedLocals = [Num 10]
   \<and> findSticky spyUtils [Num 10] 10 = Some 0
   \<and> fst (setCursor spyUtils exampleConfig exampleOpts (skippedCursor 10) examplePinned) = None
   \<and> renderTooltipCloses
         (snd (setCursor spyUtils exampleConfig exampleOpts (skippedCursor 10) examplePinned))
       = RenderClosure
           [\<lparr>row_name = ''a'', originalValue = Num 10, row_value = [], row_y = Num 10,
             row_color = ''red'', active = True, normalized = None\<rparr>]
           1 (Num 0) 30 \<lparr>a_left = 34, a_top = - 14\<rparr>"
proof -
  have b: "buildRows spyUtils exampleConfig exampleOpts skippedData (u_series (skippedCursor 10)) 0
     loopStart = Inr skippedLocals"
    by (simp add: example_build_skipped)
  have o: "overSet examplePinned" "highlightLines exampleOpts" "tracking exampleOpts = Sticky"
    by (simp_all add: examplePinned_eq exampleOpts_def defaults_def)
  have d: "skippedData \<noteq> []" by (simp add: skippedData_def)
  have up: "[1..<length skippedSeries] = [1, 2]"
    by (simp add: skippedSeries_def upt_rec)
  have em: "filter (\<lambda>j. s_show (skippedSeries ! j)
                \<and> \<not> skipRow spyUtils exampleConfig exampleOpts skippedData skippedSeries 0 j)
        [1..<length skippedSeries] = [1]"
    unfolding up
    by (simp add: skippedSeries_def skippedData_def exampleSeries_def skipRow_def valueAt_def
        dValueAt_def findValue_def defaultNull_def js_nth_def exampleConfig_def exampleOpts_def
        defaults_def Let_def)
  have sh: "filter (\<lambda>j. s_show (skippedSeries ! j)) [1..<length skippedSeries] = [1, 2]"
    unfolding up by (simp add: skippedSeries_def exampleSeries_def)
  have l: "l_ys skippedLocals = [Num 10, Num 20]" "l_rowYs skippedLocals = [Num 10]"
    "l_rows skippedLocals = [\<lparr>row_name = ''a'', originalValue = Num 10, row_value = [],
        row_y = Num 10, row_color = ''red'', active = False, normalized = None\<rparr>]"
    "l_sum skippedLocals = 30"
    by (simp_all add: skippedLocals_def)
  have sp: "findSticky spyUtils [Num 10] 10 = Some 0"
    by (simp add: spyUtils_def)
  have al: "availableLines skippedSeries = 1" "js_nth (hd skippedData) Undefined 0 = Num 0"
    by (simp_all add: availableLines_def skippedSeries_def skippedData_def exampleSeries_def
        js_nth_def)
  have rys: "map (realYAt skippedData 0) [1] = [Num 10]"
    by (simp add: realYAt_def skippedData_def js_nth_def)
  have rws: "map (rowData spyUtils exampleConfig exampleOpts skippedData skippedSeries 0) [1]
             = [\<lparr>row_name = ''a'', originalValue = Num 10, row_value = [],
                 row_y = Num 10, row_color = ''red'', active = False, normalized = None\<rparr>]"
    by (simp add: rowData_def valueAt_def dValueAt_def findValue_def defaultNull_def yValueAt_def
        realYAt_def js_nth_def skippedData_def skippedSeries_def exampleSeries_def
        exampleConfig_def exampleOpts_def defaults_def Let_def)
  note T = ys_and_rowYs [OF b, where t = 10 and s = examplePinned and x = "Num 0" and ys' = "[]",
      unfolded Let_def skippedCursor_fields em sh rys rws]
  note S = T [THEN conjunct2, THEN conjunct2, THEN conjunct2, THEN conjunct2]
  have pre: "Some skippedData = Some skippedData \<and> Some (0::nat) = Some 0
      \<and> Some (10::real) = Some 10 \<and> inViewPort (skippedCursor 10) \<and> skippedData \<noteq> []
      \<and> [\<lparr>row_name = ''a'', originalValue = Num 10, row_value = [],
                 row_y = Num 10, row_color = ''red'', active = False, normalized = None\<rparr>] \<noteq> []
      \<and> overSet examplePinned \<and> highlightLines exampleOpts \<and> tracking exampleOpts \<noteq> TrackingNone"
    using o d by simp
  have "fst (setCursor spyUtils exampleConfig exampleOpts (skippedCursor 10) examplePinned) = None
   \<and> renderTooltipCloses
         (snd (setCursor spyUtils exampleConfig exampleOpts (skippedCursor 10) examplePinned))
       = RenderClosure
           [\<lparr>row_name = ''a'', originalValue = Num 10, row_value = [], row_y = Num 10,
             row_color = ''red'', active = True, normalized = None\<rparr>]
           1 (Num 0) 30 \<lparr>a_left = 34, a_top = - 14\<rparr>"
    using S [rule_format, OF pre] by (simp add: o(3) sp al l(4) example_sortRows)
  then show ?thesis using b o l sp by simp
qed

end
